theory Spec2Isabelle
  imports Complex_Main "HOL-Library.Sublist"
begin

section \<open>Python strings\<close>

text \<open>
  A Python \<open>str\<close> is a sequence of Unicode code points. It is modelled as a list of
  natural numbers, one per code point, so that \<open>len\<close>, slicing, \<open>in\<close>, \<open>split\<close>,
  \<open>replace\<close> and \<open>strip\<close> count what Python counts. \<open>py\<close> reads an ASCII literal.
\<close>

type_synonym pystr = "nat list"

definition py :: "string \<Rightarrow> pystr" where
  "py cs = map of_char cs"

text \<open>
  \<open>str.isspace\<close> on one code point: the code points whose Unicode bidirectional class is
  WS, B or S, or whose general category is Zs. \<open>str.strip()\<close> with no argument removes
  exactly these from both ends.
\<close>

definition is_space :: "nat \<Rightarrow> bool" where
  "is_space c \<longleftrightarrow>
     (9 \<le> c \<and> c \<le> 13) \<or> (28 \<le> c \<and> c \<le> 32) \<or> c = 133 \<or> c = 160 \<or> c = 5760 \<or>
     (8192 \<le> c \<and> c \<le> 8202) \<or> c = 8232 \<or> c = 8233 \<or> c = 8239 \<or> c = 8287 \<or> c = 12288"

definition strip :: "pystr \<Rightarrow> pystr" where
  "strip s = rev (dropWhile is_space (rev (dropWhile is_space s)))"

text \<open>
  \<open>sub in s\<close> is the contiguous-substring test, \<^const>\<open>sublist\<close> of the library.
  \<open>partition_py sep s\<close> finds the leftmost occurrence of \<open>sep\<close> in \<open>s\<close> and returns the
  text before it and the text after it, which is the scan that \<open>str.split\<close> and
  \<open>str.replace\<close> repeat.
\<close>

fun partition_py :: "'a list \<Rightarrow> 'a list \<Rightarrow> ('a list \<times> 'a list) option" where
  "partition_py sep [] = (if sep = [] then Some ([], []) else None)"
| "partition_py sep (c # cs) =
     (if prefix sep (c # cs) then Some ([], drop (length sep) (c # cs))
      else map_option (\<lambda>(a, b). (c # a, b)) (partition_py sep cs))"

lemma partition_py_length:
  "partition_py sep s = Some (a, b) \<Longrightarrow> length a + length sep + length b = length s"
proof (induction s arbitrary: a)
  case Nil
  then show ?case by (simp split: if_splits)
next
  case (Cons c cs)
  show ?case
  proof (cases "prefix sep (c # cs)")
    case True
    then have "length sep \<le> length (c # cs)" by (rule prefix_length_le)
    with True Cons.prems show ?thesis by auto
  next
    case False
    with Cons.prems obtain a' where "partition_py sep cs = Some (a', b)" and "a = c # a'"
      by auto
    with Cons.IH [of a'] show ?thesis by simp
  qed
qed

text \<open>
  \<open>s.split(sep)\<close>: the pieces between the non-overlapping occurrences of \<open>sep\<close>, found
  left to right. Python raises \<open>ValueError\<close> on an empty separator; the only separator
  of this program is a non-empty literal, and the model returns no piece there.
\<close>

function split_py :: "'a list \<Rightarrow> 'a list \<Rightarrow> 'a list list" where
  "split_py sep s =
     (if sep = [] then []
      else case partition_py sep s of
             None \<Rightarrow> [s]
           | Some (a, b) \<Rightarrow> a # split_py sep b)"
  by pat_completeness auto
termination
proof (relation "measure (\<lambda>(sep, s). length s)")
  show "wf (measure (\<lambda>(sep :: 'a list, s :: 'a list). length s))" by simp
next
  fix sep s :: "'a list" and x2 :: "'a list \<times> 'a list" and a b :: "'a list"
  assume "sep \<noteq> []" and "partition_py sep s = Some x2" and "(a, b) = x2"
  then have "length a + length sep + length b = length s"
    by (simp add: partition_py_length)
  with \<open>sep \<noteq> []\<close> show "((sep, b), (sep, s)) \<in> measure (\<lambda>(sep, s). length s)"
    by (cases sep) auto
qed

text \<open>
  \<open>s.replace(old, new)\<close>: every non-overlapping occurrence of \<open>old\<close>, found left to
  right in one pass, is replaced by \<open>new\<close>. For an empty \<open>old\<close> Python puts \<open>new\<close>
  before every character and at the end.
\<close>

function replace_py :: "'a list \<Rightarrow> 'a list \<Rightarrow> 'a list \<Rightarrow> 'a list" where
  "replace_py old new s =
     (if old = [] then new @ concat (map (\<lambda>c. c # new) s)
      else case partition_py old s of
             None \<Rightarrow> s
           | Some (a, b) \<Rightarrow> a @ new @ replace_py old new b)"
  by pat_completeness auto
termination
proof (relation "measure (\<lambda>(old, new, s). length s)")
  show "wf (measure (\<lambda>(old :: 'a list, new :: 'a list, s :: 'a list). length s))" by simp
next
  fix old new s :: "'a list" and x2 :: "'a list \<times> 'a list" and a b :: "'a list"
  assume "old \<noteq> []" and "partition_py old s = Some x2" and "(a, b) = x2"
  then have "length a + length old + length b = length s"
    by (simp add: partition_py_length)
  with \<open>old \<noteq> []\<close> show "((old, new, b), (old, new, s)) \<in> measure (\<lambda>(old, new, s). length s)"
    by (cases old) auto
qed

declare split_py.simps [simp del] replace_py.simps [simp del]

section \<open>Errors\<close>

text \<open>
  The program catches nothing: an exception raised by the completion client, by an index
  out of range, or by a string operation applied to \<open>None\<close>, ends the script pass where it
  is raised.
\<close>

datatype py_exception = APIError pystr | IndexError | TypeError

section \<open>Parsing the designer's response\<close>

text \<open>
  The parse at the end of \<open>call_scenario_designer\<close>, on the text \<open>text_out\<close> of the
  response. \<open>parts[0]\<close> and \<open>parts[1]\<close> are read from the list that \<open>split\<close> returns;
  a list with fewer than two pieces would raise \<open>IndexError\<close>.
\<close>

definition EVALUATION_RUBRIC_literal :: pystr where
  "EVALUATION_RUBRIC_literal = py ''EVALUATION_RUBRIC:''"

definition SCENARIO_literal :: pystr where
  "SCENARIO_literal = py ''SCENARIO:''"

definition No_rubric_found :: pystr where
  "No_rubric_found = py ''No rubric found.''"

definition parse_text_out :: "pystr \<Rightarrow> py_exception + (pystr \<times> pystr)" where
  "parse_text_out text_out =
     (if sublist EVALUATION_RUBRIC_literal text_out then
        (case split_py EVALUATION_RUBRIC_literal text_out of
           p0 # p1 # _ \<Rightarrow> Inr (strip (replace_py SCENARIO_literal [] p0), strip p1)
         | _ \<Rightarrow> Inl IndexError)
      else Inr (strip text_out, No_rubric_found))"

section \<open>Session state\<close>

text \<open>
  \<open>st.session_state\<close> holds five keys, created at the top of every script pass when they
  are missing, so that \<open>main\<close> always finds all five. A message of the conversation is a
  dictionary with the keys \<open>role\<close> and \<open>content\<close>; the content is a string, or
  \<open>None\<close> when the reply it was taken from had no text.
\<close>

record msg =
  role :: pystr
  content :: "pystr option"

record session =
  scenario_output :: "pystr option"
  evaluation_rubric :: "pystr option"
  simulation_messages :: "msg list"
  evaluation_feedback :: "pystr option"
  simulation_finished :: bool

definition initial_session :: session where
  "initial_session =
     \<lparr>scenario_output = None, evaluation_rubric = None, simulation_messages = [],
      evaluation_feedback = None, simulation_finished = False\<rparr>"

section \<open>Prompt templates\<close>

text \<open>
  \<open>str.format\<close> writes a string argument as it is, \<open>None\<close> as the text \<open>None\<close> and an
  integer in decimal. Each template is modelled as the function that \<open>.format\<close> applies
  to its named arguments.
\<close>

fun str_nat :: "nat \<Rightarrow> pystr" where
  "str_nat n = (if n < 10 then [48 + n] else str_nat (n div 10) @ [48 + n mod 10])"

declare str_nat.simps [simp del]

definition str_int :: "int \<Rightarrow> pystr" where
  "str_int i = (if i < 0 then 45 # str_nat (nat (- i)) else str_nat (nat i))"

definition str_opt :: "pystr option \<Rightarrow> pystr" where
  "str_opt v = (case v of None \<Rightarrow> py ''None'' | Some t \<Rightarrow> t)"

definition INFLUENCE_DATA :: pystr where
  "INFLUENCE_DATA = py ''\<newline>[ ... Your Influence Data goes here in full ... ]\<newline>''"

definition SCENARIO_DESIGNER_PROMPT_TEMPLATE ::
  "pystr \<Rightarrow> pystr \<Rightarrow> pystr \<Rightarrow> pystr \<Rightarrow> int \<Rightarrow> pystr \<Rightarrow> pystr" where
  "SCENARIO_DESIGNER_PROMPT_TEMPLATE tactics scenario_details role_arg make_it_up difficulty
       influence_data =
     py ''\<newline>You are the Scenario Designer Agent (o3-mini). \<newline>You have '' @ [39] @
     py ''reasoning_effort='' @ [34] @ py ''high'' @ [34] @ [39] @
     py '' to produce a thoughtful scenario.\<newline>\<newline>User inputs:\<newline>- Influence tactics to practice: '' @
     tactics @
     py ''\<newline>- User scenario details: '' @ scenario_details @
     py ''\<newline>- Desired role: '' @ role_arg @
     py ''\<newline>- Make it up? '' @ make_it_up @
     py ''\<newline>- Difficulty: '' @ str_int difficulty @
     py ''\<newline>\<newline>Use the following Influence Data to inform your scenario design:\<newline>'' @
     influence_data @
     py ''\<newline>\<newline>Tasks:\<newline>1. Create a realistic, detailed scenario requiring the user to apply at least two different influence tactics.\<newline>2. Produce a multi-criteria evaluation rubric (scoring or rating) that will be used to judge the user'' @
     [39] @
     py ''s performance.\<newline>3. Output must contain:\<newline>   - SCENARIO:\<newline>   - EVALUATION_RUBRIC:\<newline>''"

definition SIMULATION_FACILITATOR_PROMPT_TEMPLATE :: "pystr \<Rightarrow> pystr \<Rightarrow> pystr" where
  "SIMULATION_FACILITATOR_PROMPT_TEMPLATE scenario_text conversation_history =
     py ''\<newline>You are the Simulation Facilitator Agent (gpt-4o).\<newline>Scenario:\<newline>'' @
     scenario_text @
     py ''\<newline>\<newline>Incorporate relevant influence frameworks, relationships, power tactics, etc.\<newline>Conversation so far:\<newline>'' @
     conversation_history @
     py ''\<newline>\<newline>Respond with the next scenario development and ask the user, '' @ [8220] @
     py ''What will you do next?'' @ [8221] @
     py '' \<newline>Invite them to respond in paragraphs.\<newline>''"

definition EVALUATOR_PROMPT_TEMPLATE :: "pystr option \<Rightarrow> pystr \<Rightarrow> pystr option \<Rightarrow> pystr" where
  "EVALUATOR_PROMPT_TEMPLATE scenario_text conversation_history rubric_text =
     py ''\<newline>You are the Evaluator & Feedback Agent (gpt-4.5).\<newline>\<newline>Scenario:\<newline>'' @
     str_opt scenario_text @
     py ''\<newline>\<newline>User-Facilitator Conversation:\<newline>'' @
     conversation_history @
     py ''\<newline>\<newline>Evaluation Rubric:\<newline>'' @
     str_opt rubric_text @
     py ''\<newline>\<newline>1) Score the user'' @ [8217] @
     py ''s performance against the rubric.\<newline>2) Provide detailed feedback (strengths, weaknesses).\<newline>3) Reference relevant influence frameworks in your explanation.\<newline>''"

section \<open>The completion client\<close>

text \<open>
  One call of \<open>client.chat.completions.create\<close>, followed by reading
  \<open>response.choices[0].message.content\<close>, either raises or yields the content of the
  reply, which the client types as an optional string: a text, or \<open>None\<close>. The client is
  a parameter of every script pass: a function from the request to that outcome. The
  literal \<open>0.7\<close> of the sampling temperature is carried as the fraction it
  denotes.
\<close>

record request =
  model :: pystr
  reasoning_effort :: "pystr option"
  temperature :: "rat option"
  messages :: "msg list"

type_synonym gateway = "request \<Rightarrow> py_exception + pystr option"

text \<open>
  What a script pass leaves behind: the session state, the requests sent to the client
  in order, and the notices shown (\<open>st.success\<close>, \<open>st.warning\<close>, \<open>st.info\<close>). Titles,
  headers and the rendering of the scenario and of the messages read the state without
  changing it and are not recorded.
\<close>

datatype notice = Success pystr | Warning pystr | Info pystr

record world =
  sess :: session
  calls :: "request list"
  notices :: "notice list"

type_synonym 'a outcome = "(py_exception \<times> world) + ('a \<times> world)"

definition create :: "gateway \<Rightarrow> request \<Rightarrow> world \<Rightarrow> pystr option outcome" where
  "create client rq wd =
     (let wd' = wd\<lparr>calls := calls wd @ [rq]\<rparr>
      in case client rq of Inl e \<Rightarrow> Inl (e, wd') | Inr content_out \<Rightarrow> Inr (content_out, wd'))"

definition notify :: "notice \<Rightarrow> world \<Rightarrow> world" where
  "notify n wd = wd\<lparr>notices := notices wd @ [n]\<rparr>"

section \<open>Agent-calling functions\<close>

text \<open>
  \<open>call_scenario_designer\<close> parses the content of the reply; on a content that is \<open>None\<close>
  the test \<open>"EVALUATION_RUBRIC:" in text_out\<close> raises \<open>TypeError\<close>. The other two functions
  return the content as it is.
\<close>

definition designer_request :: "pystr \<Rightarrow> pystr \<Rightarrow> pystr \<Rightarrow> pystr \<Rightarrow> int \<Rightarrow> request" where
  "designer_request tactics scenario_details role_arg make_it_up difficulty =
     \<lparr>model = py ''o3-mini'', reasoning_effort = Some (py ''high''), temperature = None,
      messages =
        [\<lparr>role = py ''system'', content = Some (py ''You are a helpful scenario designer.'')\<rparr>,
         \<lparr>role = py ''user'',
          content = Some (SCENARIO_DESIGNER_PROMPT_TEMPLATE tactics scenario_details role_arg
                            make_it_up difficulty INFLUENCE_DATA)\<rparr>]\<rparr>"

definition call_scenario_designer ::
  "gateway \<Rightarrow> pystr \<Rightarrow> pystr \<Rightarrow> pystr \<Rightarrow> pystr \<Rightarrow> int \<Rightarrow> world \<Rightarrow> (pystr \<times> pystr) outcome" where
  "call_scenario_designer client tactics scenario_details role_arg make_it_up difficulty wd =
     (case create client (designer_request tactics scenario_details role_arg make_it_up difficulty) wd of
        Inl x \<Rightarrow> Inl x
      | Inr (None, wd') \<Rightarrow> Inl (TypeError, wd')
      | Inr (Some text_out, wd') \<Rightarrow>
          (case parse_text_out text_out of
             Inl e \<Rightarrow> Inl (e, wd')
           | Inr parts \<Rightarrow> Inr (parts, wd')))"

definition facilitator_request :: "pystr \<Rightarrow> pystr \<Rightarrow> request" where
  "facilitator_request scenario_text conversation_text =
     \<lparr>model = py ''gpt-4o'', reasoning_effort = None, temperature = Some (7 / 10),
      messages =
        [\<lparr>role = py ''system'', content = Some (py ''You are the simulation facilitator.'')\<rparr>,
         \<lparr>role = py ''user'',
          content = Some (SIMULATION_FACILITATOR_PROMPT_TEMPLATE scenario_text conversation_text)\<rparr>]\<rparr>"

definition call_simulation_facilitator ::
  "gateway \<Rightarrow> pystr \<Rightarrow> pystr \<Rightarrow> world \<Rightarrow> pystr option outcome" where
  "call_simulation_facilitator client scenario_text conversation_text wd =
     create client (facilitator_request scenario_text conversation_text) wd"

definition evaluator_request :: "pystr option \<Rightarrow> pystr \<Rightarrow> pystr option \<Rightarrow> request" where
  "evaluator_request scenario_text conversation_text rubric_text =
     \<lparr>model = py ''gpt-4o'', reasoning_effort = None, temperature = Some (7 / 10),
      messages =
        [\<lparr>role = py ''system'', content = Some (py ''You are the evaluator.'')\<rparr>,
         \<lparr>role = py ''user'',
          content = Some (EVALUATOR_PROMPT_TEMPLATE scenario_text conversation_text rubric_text)\<rparr>]\<rparr>"

definition call_evaluator ::
  "gateway \<Rightarrow> pystr option \<Rightarrow> pystr \<Rightarrow> pystr option \<Rightarrow> world \<Rightarrow> pystr option outcome" where
  "call_evaluator client scenario_text conversation_text rubric_text wd =
     create client (evaluator_request scenario_text conversation_text rubric_text) wd"

section \<open>The script pass\<close>

text \<open>
  The widgets of one pass. A button returns \<open>True\<close> only in the pass that its click
  started, so at most one button is clicked in a pass; \<open>clicked\<close> names it. The text
  inputs, the radio choice and the slider return their current values.
\<close>

datatype button = Generate_Scenario | Submit_Move | Finish_Evaluate | Restart_Everything

record widgets =
  user_tactics :: pystr
  user_scenario :: pystr
  user_role :: pystr
  user_make_up :: pystr
  user_difficulty :: int
  user_input :: pystr
  clicked :: "button option"

text \<open>
  The two loops that build \<open>conversation_text\<close>: the one of the Submit Move handler and
  the one of the evaluation step. Each starts from the empty string and appends one
  line per message; the f-string writes a content that is \<open>None\<close> as the text \<open>None\<close>.
\<close>

definition simulation_conversation_text :: "msg list \<Rightarrow> pystr" where
  "simulation_conversation_text ms =
     foldl (\<lambda>conversation_text m.
              conversation_text @
              (if role m = py ''user'' then py ''USER'' else py ''FACILITATOR'') @
              py '': '' @ str_opt (content m) @ py ''\<newline>'') [] ms"

definition evaluation_conversation_text :: "msg list \<Rightarrow> pystr" where
  "evaluation_conversation_text ms =
     foldl (\<lambda>conversation_text m.
              conversation_text @
              (if role m = py ''user'' then py ''USER'' else py ''FACILITATOR'') @
              py '': '' @ str_opt (content m) @ py ''\<newline>'') [] ms"

definition append_message :: "msg \<Rightarrow> world \<Rightarrow> world" where
  "append_message m wd =
     wd\<lparr>sess := (sess wd)\<lparr>simulation_messages := simulation_messages (sess wd) @ [m]\<rparr>\<rparr>"

text \<open>(A) Scenario setup, shown while no scenario is generated.\<close>

definition section_A :: "gateway \<Rightarrow> widgets \<Rightarrow> world \<Rightarrow> (py_exception \<times> world) + world" where
  "section_A client w wd =
     (if scenario_output (sess wd) = None then
        (if clicked w = Some Generate_Scenario then
           (case call_scenario_designer client (user_tactics w) (user_scenario w) (user_role w)
                   (user_make_up w) (user_difficulty w) wd of
              Inl x \<Rightarrow> Inl x
            | Inr ((scenario_text, rubric_text), wd1) \<Rightarrow>
                Inr (notify (Success (py ''Scenario Generated! Please scroll down to continue.''))
                      (wd1\<lparr>sess := (sess wd1)\<lparr>scenario_output := Some scenario_text,
                                               evaluation_rubric := Some rubric_text\<rparr>\<rparr>)))
         else Inr wd)
      else Inr wd)"

text \<open>(B) The simulation, shown while there is a scenario and the simulation is not finished.\<close>

definition submit_move :: "gateway \<Rightarrow> widgets \<Rightarrow> pystr \<Rightarrow> world \<Rightarrow> (py_exception \<times> world) + world" where
  "submit_move client w scenario_text wd =
     (if strip (user_input w) = [] then
        Inr (notify (Warning (py ''Please enter a move.'')) wd)
      else
        (let wd1 = append_message \<lparr>role = py ''user'', content = Some (user_input w)\<rparr> wd;
             conversation_text = simulation_conversation_text (simulation_messages (sess wd1))
         in case call_simulation_facilitator client scenario_text conversation_text wd1 of
              Inl x \<Rightarrow> Inl x
            | Inr (facilitator_output, wd2) \<Rightarrow>
                Inr (notify (Success (py ''Move submitted! Scroll down to see the facilitator'' @ [39] @
                                      py ''s response.''))
                      (append_message \<lparr>role = py ''assistant'', content = facilitator_output\<rparr> wd2))))"

definition finish_simulation :: "world \<Rightarrow> world" where
  "finish_simulation wd =
     notify (Success (py ''You'' @ [39] @ py ''ve chosen to finish. Scroll to Step 3 for evaluation.''))
       (wd\<lparr>sess := (sess wd)\<lparr>simulation_finished := True\<rparr>\<rparr>)"

definition section_B :: "gateway \<Rightarrow> widgets \<Rightarrow> world \<Rightarrow> (py_exception \<times> world) + world" where
  "section_B client w wd =
     (case scenario_output (sess wd) of
        None \<Rightarrow> Inr wd
      | Some scenario_text \<Rightarrow>
          (if \<not> simulation_finished (sess wd) then
             (case (if clicked w = Some Submit_Move then submit_move client w scenario_text wd
                    else Inr wd) of
                Inl x \<Rightarrow> Inl x
              | Inr wd1 \<Rightarrow>
                  Inr (if clicked w = Some Finish_Evaluate then finish_simulation wd1 else wd1))
           else Inr wd))"

text \<open>(C) Evaluation and restart, shown once the simulation is finished.\<close>

definition evaluate :: "gateway \<Rightarrow> world \<Rightarrow> (py_exception \<times> world) + world" where
  "evaluate client wd =
     (if evaluation_feedback (sess wd) = None then
        (let wd1 = notify (Info (py ''Evaluating your entire conversation... please wait.'')) wd;
             conversation_text = evaluation_conversation_text (simulation_messages (sess wd1))
         in case call_evaluator client (scenario_output (sess wd1)) conversation_text
                   (evaluation_rubric (sess wd1)) wd1 of
              Inl x \<Rightarrow> Inl x
            | Inr (feedback, wd2) \<Rightarrow>
                Inr (notify (Success (py ''Evaluation complete! See below for detailed feedback.''))
                      (wd2\<lparr>sess := (sess wd2)\<lparr>evaluation_feedback := feedback\<rparr>\<rparr>)))
      else Inr wd)"

definition restart_everything :: "world \<Rightarrow> world" where
  "restart_everything wd =
     notify (Success (py ''All cleared. Scroll up to Step 1 to begin again.''))
       (wd\<lparr>sess := (sess wd)\<lparr>scenario_output := None, evaluation_rubric := None,
                               simulation_messages := [], evaluation_feedback := None,
                               simulation_finished := False\<rparr>\<rparr>)"

definition section_C :: "gateway \<Rightarrow> widgets \<Rightarrow> world \<Rightarrow> (py_exception \<times> world) + world" where
  "section_C client w wd =
     (if simulation_finished (sess wd) then
        (case evaluate client wd of
           Inl x \<Rightarrow> Inl x
         | Inr wd1 \<Rightarrow>
             Inr (if clicked w = Some Restart_Everything then restart_everything wd1 else wd1))
      else Inr wd)"

text \<open>
  One pass of \<open>main\<close> from the session state \<open>s\<close>: the three sections in order, each on
  the state the one before left. \<open>Inl\<close> is a pass ended by an exception, with the state
  at that point, which is the state the next pass starts from.
\<close>

definition main :: "gateway \<Rightarrow> widgets \<Rightarrow> session \<Rightarrow> (py_exception \<times> world) + world" where
  "main client w s =
     (case section_A client w \<lparr>sess = s, calls = [], notices = []\<rparr> of
        Inl x \<Rightarrow> Inl x
      | Inr wd1 \<Rightarrow>
          (case section_B client w wd1 of
             Inl x \<Rightarrow> Inl x
           | Inr wd2 \<Rightarrow> section_C client w wd2))"

definition world_after :: "(py_exception \<times> world) + world \<Rightarrow> world" where
  "world_after r = (case r of Inl (e, wd) \<Rightarrow> wd | Inr wd \<Rightarrow> wd)"

definition session_after :: "(py_exception \<times> world) + world \<Rightarrow> session" where
  "session_after r = sess (world_after r)"

definition raised :: "(py_exception \<times> world) + world \<Rightarrow> py_exception option" where
  "raised r = (case r of Inl (e, wd) \<Rightarrow> Some e | Inr wd \<Rightarrow> None)"

section \<open>The parse as the specification words it\<close>

text \<open>
  The specification describes the parse as follows: when the delimiter is present, the
  scenario is the text before the delimiter with a leading \<open>SCENARIO:\<close> label stripped,
  trimmed, and the rubric is the text after the delimiter, trimmed; otherwise the scenario
  is the trimmed response and the rubric is the fixed sentinel. This definition follows
  those words, cutting at the leftmost delimiter; it is compared with \<open>parse_text_out\<close>
  below.
\<close>

definition strip_leading_label :: "pystr \<Rightarrow> pystr" where
  "strip_leading_label before =
     (let b = dropWhile is_space before
      in if prefix SCENARIO_literal b then drop (length SCENARIO_literal) b else before)"

definition spec_parse_text_out :: "pystr \<Rightarrow> pystr \<times> pystr" where
  "spec_parse_text_out response =
     (case partition_py EVALUATION_RUBRIC_literal response of
        None \<Rightarrow> (strip response, No_rubric_found)
      | Some (before, after) \<Rightarrow> (strip (strip_leading_label before), strip after))"

section \<open>The conversation context as the specification words it\<close>

text \<open>
  The specification renders the conversation context by concatenating every turn as
  \<open><ROLE_LABEL>: <content>\<close> followed by a newline, in transcript order, where the label is
  \<open>USER\<close> for a turn of the user and \<open>FACILITATOR\<close> otherwise. This definition follows
  those words, the content written as \<open>str\<close> writes it; it is compared with the two loops
  of the code below.
\<close>

definition spec_conversation_context :: "msg list \<Rightarrow> pystr" where
  "spec_conversation_context transcript =
     concat (map (\<lambda>turn. (if role turn = py ''user'' then py ''USER'' else py ''FACILITATOR'') @
                          py '': '' @ str_opt (content turn) @ py ''\<newline>'') transcript)"

section \<open>Sequences of passes\<close>

text \<open>
  Every user event starts one pass of the script, and the session state that a pass
  leaves, also a pass ended by an exception, is the state the next pass starts from.
  \<open>run_passes\<close> is the state after a list of passes, each with its own client behaviour
  and widget values, and \<open>calls_of_passes\<close> lists the requests sent over all of them.
\<close>

fun run_passes :: "(gateway \<times> widgets) list \<Rightarrow> session \<Rightarrow> session" where
  "run_passes [] s = s"
| "run_passes ((client, w) # es) s = run_passes es (session_after (main client w s))"

fun calls_of_passes :: "(gateway \<times> widgets) list \<Rightarrow> session \<Rightarrow> request list" where
  "calls_of_passes [] s = []"
| "calls_of_passes ((client, w) # es) s =
     calls (world_after (main client w s)) @ calls_of_passes es (session_after (main client w s))"

text \<open>
  A list of accepted moves: every pass is a click on Submit Move with a move that is not
  blank, and no pass raises, that is, the facilitator's reply arrives.
\<close>

fun accepted_moves :: "(gateway \<times> widgets) list \<Rightarrow> session \<Rightarrow> bool" where
  "accepted_moves [] s = True"
| "accepted_moves ((client, w) # es) s =
     (clicked w = Some Submit_Move \<and> strip (user_input w) \<noteq> [] \<and>
      raised (main client w s) = None \<and>
      accepted_moves es (session_after (main client w s)))"

text \<open>
  The session states that the program can be in: the initial one, and the state after
  any pass from such a state, whatever the client answers and whatever the widgets hold.
\<close>

inductive reachable :: "session \<Rightarrow> bool" where
  start: "reachable initial_session"
| pass: "reachable s \<Longrightarrow> reachable (session_after (main client w s))"

section \<open>Example inputs\<close>

text \<open>
  Widget values with one button clicked (or none) and a given move text, a client that
  answers every request with a fixed text, a client that always raises, a client whose
  replies have no text, and the session state right after a scenario was generated.
\<close>

definition click :: "button option \<Rightarrow> pystr \<Rightarrow> widgets" where
  "click b move =
     \<lparr>user_tactics = py ''reciprocity'', user_scenario = [], user_role = py ''negotiator'',
      user_make_up = py ''Yes'', user_difficulty = 3, user_input = move, clicked = b\<rparr>"

definition replying :: "pystr \<Rightarrow> gateway" where
  "replying text = (\<lambda>rq. Inr (Some text))"

definition silent :: gateway where
  "silent = (\<lambda>rq. Inr None)"

definition failing :: gateway where
  "failing = (\<lambda>rq. Inl (APIError (py ''timeout'')))"

definition simulating_session :: session where
  "simulating_session =
     \<lparr>scenario_output = Some (py ''A negotiation.''),
      evaluation_rubric = Some (py ''Score clarity 1-5.''),
      simulation_messages = [], evaluation_feedback = None, simulation_finished = False\<rparr>"

section \<open>Facts about the string operations\<close>

subsection \<open>Facts about the leftmost occurrence\<close>

text \<open>
  An occurrence of \<open>sep\<close> after the text \<open>pre\<close> is the leftmost one exactly when \<open>sep\<close>
  does not occur in \<open>pre @ butlast sep\<close>, that is, when no occurrence starts earlier.
\<close>

lemma partition_py_None: "\<not> sublist sep s \<Longrightarrow> partition_py sep s = None"
  by (induction s) (auto simp: sublist_Cons_right)

lemma butlast_not_sublist: "sep \<noteq> [] \<Longrightarrow> \<not> sublist sep (butlast sep)"
proof
  assume "sep \<noteq> []" and "sublist sep (butlast sep)"
  from this(2) have "length sep \<le> length (butlast sep)" by (rule sublist_length_le)
  moreover have "length (butlast sep) = length sep - 1" by simp
  moreover have "0 < length sep" using \<open>sep \<noteq> []\<close> by simp
  ultimately show False by arith
qed

lemma prefix_before_first:
  assumes "sep \<noteq> []" and "prefix sep ((c # pre) @ sep @ rest)"
  shows "sublist sep ((c # pre) @ butlast sep)"
proof -
  have "sep = butlast sep @ [last sep]" using assms(1) by simp
  then have "(c # pre) @ sep @ rest = ((c # pre) @ butlast sep) @ ([last sep] @ rest)"
    by simp
  then have "prefix ((c # pre) @ butlast sep) ((c # pre) @ sep @ rest)"
    by (rule prefixI)
  moreover have "length sep \<le> length ((c # pre) @ butlast sep)"
    using assms(1) by (cases sep) auto
  ultimately have "prefix sep ((c # pre) @ butlast sep)"
    using assms(2) by (rule prefix_length_prefix [rotated])
  then show ?thesis by (rule prefix_imp_sublist)
qed

lemma partition_py_first:
  "sep \<noteq> [] \<Longrightarrow> \<not> sublist sep (pre @ butlast sep) \<Longrightarrow>
   partition_py sep (pre @ sep @ rest) = Some (pre, rest)"
proof (induction pre)
  case Nil
  then obtain x xs where "sep = x # xs" by (cases sep) auto
  then show ?case by simp
next
  case (Cons c pre)
  have np: "\<not> prefix sep ((c # pre) @ sep @ rest)"
  proof
    assume "prefix sep ((c # pre) @ sep @ rest)"
    with Cons.prems(1) have "sublist sep ((c # pre) @ butlast sep)"
      by (rule prefix_before_first)
    with Cons.prems(2) show False by simp
  qed
  from Cons.prems have "\<not> sublist sep (pre @ butlast sep)"
    by (simp add: sublist_Cons_right)
  with Cons.IH Cons.prems(1) have "partition_py sep (pre @ sep @ rest) = Some (pre, rest)"
    by simp
  with np show ?case by simp
qed

lemma first_occurrence_exists:
  "sep \<noteq> [] \<Longrightarrow> sublist sep s \<Longrightarrow>
   \<exists>pre rest. s = pre @ sep @ rest \<and> \<not> sublist sep (pre @ butlast sep)"
proof (induction s)
  case Nil
  then show ?case by simp
next
  case (Cons c cs)
  show ?case
  proof (cases "prefix sep (c # cs)")
    case True
    then obtain rest where "c # cs = [] @ sep @ rest" by (auto simp: prefix_def)
    moreover have "\<not> sublist sep ([] @ butlast sep)"
      using Cons.prems(1) by (simp add: butlast_not_sublist)
    ultimately show ?thesis by blast
  next
    case False
    with Cons.prems have "sublist sep cs" by (simp add: sublist_Cons_right)
    with Cons.IH Cons.prems(1) obtain pre rest
      where cs: "cs = pre @ sep @ rest" and nf: "\<not> sublist sep (pre @ butlast sep)" by blast
    have "\<not> prefix sep ((c # pre) @ butlast sep)"
    proof
      assume p: "prefix sep ((c # pre) @ butlast sep)"
      have "sep = butlast sep @ [last sep]" using Cons.prems(1) by simp
      then have "c # cs = ((c # pre) @ butlast sep) @ ([last sep] @ rest)"
        using cs by simp
      then have "prefix ((c # pre) @ butlast sep) (c # cs)" by (rule prefixI)
      with p have "prefix sep (c # cs)" by (rule prefix_order.trans)
      with False show False by simp
    qed
    with nf have "\<not> sublist sep ((c # pre) @ butlast sep)"
      by (simp add: sublist_Cons_right)
    moreover from cs have "c # cs = (c # pre) @ sep @ rest" by simp
    ultimately show ?thesis by blast
  qed
qed

lemma split_py_None: "sep \<noteq> [] \<Longrightarrow> \<not> sublist sep s \<Longrightarrow> split_py sep s = [s]"
  by (simp add: split_py.simps [of sep s] partition_py_None)

lemma split_py_first:
  "sep \<noteq> [] \<Longrightarrow> \<not> sublist sep (pre @ butlast sep) \<Longrightarrow>
   split_py sep (pre @ sep @ rest) = pre # split_py sep rest"
  by (simp add: split_py.simps [of sep "pre @ sep @ rest"] partition_py_first)

lemma replace_py_None: "old \<noteq> [] \<Longrightarrow> \<not> sublist old s \<Longrightarrow> replace_py old new s = s"
  by (simp add: replace_py.simps [of old new s] partition_py_None)

lemma replace_py_first:
  "old \<noteq> [] \<Longrightarrow> \<not> sublist old (pre @ butlast old) \<Longrightarrow>
   replace_py old new (pre @ old @ rest) = pre @ new @ replace_py old new rest"
  by (simp add: replace_py.simps [of old new "pre @ old @ rest"] partition_py_first)

subsection \<open>Evaluating the parse\<close>

lemmas string_eval =
  py_def strip_def is_space_def sublist_Cons_right split_py.simps replace_py.simps
  EVALUATION_RUBRIC_literal_def SCENARIO_literal_def No_rubric_found_def

lemma EVALUATION_RUBRIC_literal_nonempty: "EVALUATION_RUBRIC_literal \<noteq> []"
  by (simp add: EVALUATION_RUBRIC_literal_def py_def)

lemma SCENARIO_literal_nonempty: "SCENARIO_literal \<noteq> []"
  by (simp add: SCENARIO_literal_def py_def)

lemma parse_text_out_absent:
  "\<not> sublist EVALUATION_RUBRIC_literal t \<Longrightarrow>
   parse_text_out t = Inr (strip t, No_rubric_found)"
  by (simp add: parse_text_out_def)

lemma parse_text_out_once:
  assumes "\<not> sublist EVALUATION_RUBRIC_literal (pre @ butlast EVALUATION_RUBRIC_literal)"
    and "\<not> sublist EVALUATION_RUBRIC_literal rest"
  shows "parse_text_out (pre @ EVALUATION_RUBRIC_literal @ rest) =
         Inr (strip (replace_py SCENARIO_literal [] pre), strip rest)"
proof -
  have "split_py EVALUATION_RUBRIC_literal (pre @ EVALUATION_RUBRIC_literal @ rest) = [pre, rest]"
    using assms EVALUATION_RUBRIC_literal_nonempty by (simp add: split_py_first split_py_None)
  then show ?thesis by (simp add: parse_text_out_def)
qed

lemma parse_text_out_twice:
  assumes "\<not> sublist EVALUATION_RUBRIC_literal (pre @ butlast EVALUATION_RUBRIC_literal)"
    and "\<not> sublist EVALUATION_RUBRIC_literal (mid @ butlast EVALUATION_RUBRIC_literal)"
  shows "parse_text_out (pre @ EVALUATION_RUBRIC_literal @ mid @ EVALUATION_RUBRIC_literal @ rest) =
         Inr (strip (replace_py SCENARIO_literal [] pre), strip mid)"
proof -
  have "split_py EVALUATION_RUBRIC_literal
          (pre @ EVALUATION_RUBRIC_literal @ mid @ EVALUATION_RUBRIC_literal @ rest) =
        pre # mid # split_py EVALUATION_RUBRIC_literal rest"
    using assms EVALUATION_RUBRIC_literal_nonempty by (simp add: split_py_first)
  then show ?thesis by (simp add: parse_text_out_def)
qed

lemma strip_empty_iff: "strip s = [] \<longleftrightarrow> (\<forall>c\<in>set s. is_space c)"
proof
  assume "strip s = []"
  then have "\<forall>c\<in>set (dropWhile is_space s). is_space c"
    by (simp add: strip_def dropWhile_eq_Nil_conv)
  then have "dropWhile is_space s = []"
    using hd_dropWhile [of is_space s] by (cases "dropWhile is_space s") auto
  then show "\<forall>c\<in>set s. is_space c" by (simp add: dropWhile_eq_Nil_conv)
next
  assume "\<forall>c\<in>set s. is_space c"
  then have "dropWhile is_space s = []" by (simp add: dropWhile_eq_Nil_conv)
  then show "strip s = []" by (simp only: strip_def rev.simps dropWhile.simps)
qed

lemma foldl_append_concat: "foldl (\<lambda>acc x. acc @ f x) a xs = a @ concat (map f xs)"
  by (induction xs arbitrary: a) simp_all

section \<open>Facts about one pass\<close>

lemmas pass_defs =
  main_def section_A_def section_B_def section_C_def submit_move_def finish_simulation_def
  evaluate_def restart_everything_def call_scenario_designer_def call_simulation_facilitator_def
  call_evaluator_def create_def notify_def append_message_def

lemmas after_defs = world_after_def session_after_def raised_def

lemmas example_defs =
  simulating_session_def click_def replying_def failing_def silent_def initial_session_def

subsection \<open>What a pass does, state by state\<close>

lemma main_generate_fail:
  assumes "scenario_output s = None" and "clicked w = Some Generate_Scenario"
    and "client (designer_request (user_tactics w) (user_scenario w) (user_role w)
           (user_make_up w) (user_difficulty w)) = Inl e"
  shows "main client w s =
         Inl (e, \<lparr>sess = s,
              calls = [designer_request (user_tactics w) (user_scenario w) (user_role w)
                 (user_make_up w) (user_difficulty w)],
              notices = []\<rparr>)"
  using assms by (auto simp: pass_defs)

lemma main_submit_blank:
  assumes "scenario_output s = Some sc" and "\<not> simulation_finished s"
    and "clicked w = Some Submit_Move" and "strip (user_input w) = []"
  shows "main client w s =
         Inr \<lparr>sess = s, calls = [], notices = [Warning (py ''Please enter a move.'')]\<rparr>"
  using assms by (simp add: pass_defs)

lemma main_submit_ok:
  assumes "scenario_output s = Some sc" and "\<not> simulation_finished s"
    and "clicked w = Some Submit_Move" and "strip (user_input w) \<noteq> []"
    and "client (facilitator_request sc (simulation_conversation_text
           (simulation_messages s @ [\<lparr>role = py ''user'', content = Some (user_input w)\<rparr>]))) = Inr reply"
  shows "main client w s =
         Inr \<lparr>sess = s\<lparr>simulation_messages := simulation_messages s @
                   [\<lparr>role = py ''user'', content = Some (user_input w)\<rparr>,
                    \<lparr>role = py ''assistant'', content = reply\<rparr>]\<rparr>,
              calls = [facilitator_request sc (simulation_conversation_text
                 (simulation_messages s @ [\<lparr>role = py ''user'', content = Some (user_input w)\<rparr>]))],
              notices = [Success (py ''Move submitted! Scroll down to see the facilitator'' @ [39] @
                                  py ''s response.'')]\<rparr>"
  using assms by (simp add: pass_defs)

lemma main_submit_fail:
  assumes "scenario_output s = Some sc" and "\<not> simulation_finished s"
    and "clicked w = Some Submit_Move" and "strip (user_input w) \<noteq> []"
    and "client (facilitator_request sc (simulation_conversation_text
           (simulation_messages s @ [\<lparr>role = py ''user'', content = Some (user_input w)\<rparr>]))) = Inl e"
  shows "main client w s =
         Inl (e, \<lparr>sess = s\<lparr>simulation_messages := simulation_messages s @
                   [\<lparr>role = py ''user'', content = Some (user_input w)\<rparr>]\<rparr>,
              calls = [facilitator_request sc (simulation_conversation_text
                 (simulation_messages s @ [\<lparr>role = py ''user'', content = Some (user_input w)\<rparr>]))],
              notices = []\<rparr>)"
  using assms by (simp add: pass_defs)

lemma main_finish_evaluate:
  assumes "scenario_output s = Some sc" and "\<not> simulation_finished s"
    and "clicked w = Some Finish_Evaluate"
  shows "main client w s =
         evaluate client
           \<lparr>sess = s\<lparr>simulation_finished := True\<rparr>, calls = [],
            notices = [Success (py ''You'' @ [39] @
                          py ''ve chosen to finish. Scroll to Step 3 for evaluation.'')]\<rparr>"
  using assms by (auto simp: main_def section_A_def section_B_def section_C_def
      finish_simulation_def notify_def split: sum.splits)

lemma main_finish_fail:
  assumes "scenario_output s = Some sc" and "\<not> simulation_finished s"
    and "evaluation_feedback s = None" and "clicked w = Some Finish_Evaluate"
    and "client (evaluator_request (scenario_output s)
           (evaluation_conversation_text (simulation_messages s)) (evaluation_rubric s)) = Inl e"
  shows "main client w s =
         Inl (e, \<lparr>sess = s\<lparr>simulation_finished := True\<rparr>,
              calls = [evaluator_request (scenario_output s)
                 (evaluation_conversation_text (simulation_messages s)) (evaluation_rubric s)],
              notices = [Success (py ''You'' @ [39] @
                           py ''ve chosen to finish. Scroll to Step 3 for evaluation.''),
                         Info (py ''Evaluating your entire conversation... please wait.'')]\<rparr>)"
proof -
  have "main client w s =
           evaluate client
             \<lparr>sess = s\<lparr>simulation_finished := True\<rparr>, calls = [],
              notices = [Success (py ''You'' @ [39] @
                           py ''ve chosen to finish. Scroll to Step 3 for evaluation.'')]\<rparr>"
    using assms(1,2,4) by (rule main_finish_evaluate)
  then show ?thesis
    using assms(3,5) by (simp add: evaluate_def call_evaluator_def create_def notify_def Let_def)
qed

lemma main_evaluated_rerun:
  assumes "scenario_output s \<noteq> None" and "simulation_finished s"
    and "evaluation_feedback s \<noteq> None" and "clicked w \<noteq> Some Restart_Everything"
  shows "main client w s = Inr \<lparr>sess = s, calls = [], notices = []\<rparr>"
  using assms by (auto simp: pass_defs)

lemma main_evaluate_ok:
  assumes "scenario_output s \<noteq> None" and "simulation_finished s"
    and "evaluation_feedback s = None" and "clicked w \<noteq> Some Restart_Everything"
    and "client (evaluator_request (scenario_output s)
           (evaluation_conversation_text (simulation_messages s)) (evaluation_rubric s)) = Inr fb"
  shows "main client w s =
         Inr \<lparr>sess = s\<lparr>evaluation_feedback := fb\<rparr>,
              calls = [evaluator_request (scenario_output s)
                 (evaluation_conversation_text (simulation_messages s)) (evaluation_rubric s)],
              notices = [Info (py ''Evaluating your entire conversation... please wait.''),
                         Success (py ''Evaluation complete! See below for detailed feedback.'')]\<rparr>"
  using assms by (auto simp: pass_defs)

lemma main_evaluate_fail:
  assumes "scenario_output s \<noteq> None" and "simulation_finished s"
    and "evaluation_feedback s = None"
    and "client (evaluator_request (scenario_output s)
           (evaluation_conversation_text (simulation_messages s)) (evaluation_rubric s)) = Inl e"
  shows "main client w s =
         Inl (e, \<lparr>sess = s,
              calls = [evaluator_request (scenario_output s)
                 (evaluation_conversation_text (simulation_messages s)) (evaluation_rubric s)],
              notices = [Info (py ''Evaluating your entire conversation... please wait.'')]\<rparr>)"
  using assms by (auto simp: pass_defs)

lemma main_restart_evaluated:
  assumes "simulation_finished s" and "evaluation_feedback s \<noteq> None"
    and "clicked w = Some Restart_Everything"
  shows "main client w s =
         Inr \<lparr>sess = initial_session, calls = [],
              notices = [Success (py ''All cleared. Scroll up to Step 1 to begin again.'')]\<rparr>"
  using assms by (auto simp: pass_defs initial_session_def split: option.splits)

lemma main_restart_evaluating_ok:
  assumes "simulation_finished s" and "evaluation_feedback s = None"
    and "clicked w = Some Restart_Everything"
    and "client (evaluator_request (scenario_output s)
           (evaluation_conversation_text (simulation_messages s)) (evaluation_rubric s)) = Inr fb"
  shows "main client w s =
         Inr \<lparr>sess = initial_session,
              calls = [evaluator_request (scenario_output s)
                 (evaluation_conversation_text (simulation_messages s)) (evaluation_rubric s)],
              notices = [Info (py ''Evaluating your entire conversation... please wait.''),
                         Success (py ''Evaluation complete! See below for detailed feedback.''),
                         Success (py ''All cleared. Scroll up to Step 1 to begin again.'')]\<rparr>"
  using assms by (auto simp: pass_defs initial_session_def split: option.splits)

lemma main_restart_evaluating_fail:
  assumes "simulation_finished s" and "evaluation_feedback s = None"
    and "clicked w = Some Restart_Everything"
    and "client (evaluator_request (scenario_output s)
           (evaluation_conversation_text (simulation_messages s)) (evaluation_rubric s)) = Inl e"
  shows "main client w s =
         Inl (e, \<lparr>sess = s,
              calls = [evaluator_request (scenario_output s)
                 (evaluation_conversation_text (simulation_messages s)) (evaluation_rubric s)],
              notices = [Info (py ''Evaluating your entire conversation... please wait.'')]\<rparr>)"
  using assms by (auto simp: pass_defs split: option.splits)

lemma main_restart_not_finished:
  assumes "\<not> simulation_finished s" and "clicked w = Some Restart_Everything"
  shows "main client w s = Inr \<lparr>sess = s, calls = [], notices = []\<rparr>"
  using assms by (auto simp: pass_defs split: option.splits)

subsection \<open>The transcript only grows\<close>

lemma section_A_messages:
  "simulation_messages (sess (world_after (section_A client w wd))) = simulation_messages (sess wd)"
  by (simp add: section_A_def call_scenario_designer_def create_def notify_def world_after_def
      Let_def split: sum.splits prod.splits option.splits)

lemma section_B_messages:
  "prefix (simulation_messages (sess wd))
     (simulation_messages (sess (world_after (section_B client w wd))))"
  by (simp add: section_B_def submit_move_def finish_simulation_def
      call_simulation_facilitator_def create_def notify_def append_message_def world_after_def
      Let_def split: sum.splits prod.splits option.splits)

lemma section_C_messages:
  "clicked w \<noteq> Some Restart_Everything \<Longrightarrow>
   simulation_messages (sess (world_after (section_C client w wd))) = simulation_messages (sess wd)"
  by (simp add: section_C_def evaluate_def call_evaluator_def create_def notify_def world_after_def
      Let_def split: sum.splits prod.splits)

lemma main_transcript_prefix:
  assumes "clicked w \<noteq> Some Restart_Everything"
  shows "prefix (simulation_messages s) (simulation_messages (session_after (main client w s)))"
proof (cases "section_A client w \<lparr>sess = s, calls = [], notices = []\<rparr>")
  case (Inl x)
  then have "session_after (main client w s) =
             sess (world_after (section_A client w \<lparr>sess = s, calls = [], notices = []\<rparr>))"
    by (simp add: main_def session_after_def)
  then show ?thesis by (simp add: section_A_messages)
next
  case A: (Inr wd1)
  then have m1: "simulation_messages (sess wd1) = simulation_messages s"
    using section_A_messages [of client w "\<lparr>sess = s, calls = [], notices = []\<rparr>"]
    by (simp add: world_after_def)
  show ?thesis
  proof (cases "section_B client w wd1")
    case (Inl x)
    with A have "session_after (main client w s) = sess (world_after (section_B client w wd1))"
      by (simp add: main_def session_after_def)
    then show ?thesis using section_B_messages [of wd1 client w] by (simp add: m1)
  next
    case B: (Inr wd2)
    then have m2: "prefix (simulation_messages s) (simulation_messages (sess wd2))"
      using section_B_messages [of wd1 client w] by (simp add: m1 world_after_def)
    from A B have "session_after (main client w s) = sess (world_after (section_C client w wd2))"
      by (simp add: main_def session_after_def)
    then show ?thesis using m2 assms by (simp add: section_C_messages)
  qed
qed

lemma accepted_move_step:
  assumes "scenario_output s = Some sc" and "\<not> simulation_finished s"
    and "clicked w = Some Submit_Move" and "strip (user_input w) \<noteq> []"
    and "raised (main client w s) = None"
  shows "\<exists>reply.
           client (facilitator_request sc (simulation_conversation_text
             (simulation_messages s @ [\<lparr>role = py ''user'', content = Some (user_input w)\<rparr>]))) = Inr reply \<and>
           session_after (main client w s) =
             s\<lparr>simulation_messages := simulation_messages s @
                 [\<lparr>role = py ''user'', content = Some (user_input w)\<rparr>,
                  \<lparr>role = py ''assistant'', content = reply\<rparr>]\<rparr>"
proof (cases "client (facilitator_request sc (simulation_conversation_text
             (simulation_messages s @ [\<lparr>role = py ''user'', content = Some (user_input w)\<rparr>])))")
  case (Inl e)
  with assms(1-4) have "raised (main client w s) = Some e"
    by (simp add: main_submit_fail raised_def)
  with assms(5) show ?thesis by simp
next
  case (Inr reply)
  with assms(1-4) show ?thesis
    by (simp add: main_submit_ok session_after_def world_after_def)
qed

lemma accepted_moves_transcript:
  assumes "scenario_output s = Some sc" and "\<not> simulation_finished s" and "accepted_moves es s"
  shows "length (simulation_messages (run_passes es s)) =
           length (simulation_messages s) + 2 * length es \<and>
         take (length (simulation_messages s)) (simulation_messages (run_passes es s)) =
           simulation_messages s \<and>
         (\<forall>i<length es.
            simulation_messages (run_passes es s) ! (length (simulation_messages s) + 2 * i) =
              \<lparr>role = py ''user'', content = Some (user_input (snd (es ! i)))\<rparr> \<and>
            role (simulation_messages (run_passes es s) ! (length (simulation_messages s) + 2 * i + 1)) =
              py ''assistant'' \<and>
            fst (es ! i) (facilitator_request sc (simulation_conversation_text
              (take (length (simulation_messages s) + 2 * i + 1)
                 (simulation_messages (run_passes es s))))) =
              Inr (content (simulation_messages (run_passes es s) !
                     (length (simulation_messages s) + 2 * i + 1))))"
  using assms
proof (induction es arbitrary: s)
  case Nil
  then show ?case by simp
next
  case (Cons e es)
  obtain client w where e: "e = (client, w)" by (cases e)
  define m where "m = simulation_messages s"
  define u where "u = \<lparr>role = py ''user'', content = Some (user_input w)\<rparr>"
  from Cons.prems(3) e have acc: "clicked w = Some Submit_Move" "strip (user_input w) \<noteq> []"
    "raised (main client w s) = None" "accepted_moves es (session_after (main client w s))"
    by simp_all
  from accepted_move_step [OF Cons.prems(1,2) acc(1-3)] obtain reply
    where reply: "client (facilitator_request sc (simulation_conversation_text (m @ [u]))) = Inr reply"
      and s1: "session_after (main client w s) =
                 s\<lparr>simulation_messages := m @ [u, \<lparr>role = py ''assistant'', content = reply\<rparr>]\<rparr>"
    unfolding m_def u_def by blast
  define a where "a = \<lparr>role = py ''assistant'', content = reply\<rparr>"
  define s1 where "s1 = session_after (main client w s)"
  define ms where "ms = simulation_messages (run_passes es s1)"
  have m1: "simulation_messages s1 = m @ [u, a]" by (simp add: s1_def s1 a_def)
  have "scenario_output s1 = Some sc" and "\<not> simulation_finished s1"
    using Cons.prems(1,2) by (simp_all add: s1_def s1)
  with acc(4) Cons.IH [of s1]
  have len: "length ms = length m + 2 + 2 * length es"
    and tk: "take (length m + 2) ms = m @ [u, a]"
    and ix: "\<And>i. i < length es \<Longrightarrow>
            ms ! (length m + 2 + 2 * i) = \<lparr>role = py ''user'', content = Some (user_input (snd (es ! i)))\<rparr> \<and>
            role (ms ! (length m + 2 + 2 * i + 1)) = py ''assistant'' \<and>
            fst (es ! i) (facilitator_request sc (simulation_conversation_text
              (take (length m + 2 + 2 * i + 1) ms))) =
              Inr (content (ms ! (length m + 2 + 2 * i + 1)))"
    by (simp_all add: s1_def [symmetric] ms_def [symmetric] m1)
  have run: "simulation_messages (run_passes (e # es) s) = ms"
    by (simp add: e ms_def s1_def)
  have tk0: "take (length m) ms = m"
  proof -
    have "take (length m) ms = take (length m) (take (length m + 2) ms)" by simp
    also have "\<dots> = m" by (simp only: tk) simp
    finally show ?thesis .
  qed
  have tk1: "take (Suc (length m)) ms = m @ [u]"
  proof -
    have "take (Suc (length m)) ms = take (Suc (length m)) (take (length m + 2) ms)" by simp
    also have "\<dots> = m @ [u]" by (simp only: tk) simp
    finally show ?thesis .
  qed
  have n0: "ms ! length m = u"
  proof -
    have "ms ! length m = take (length m + 2) ms ! length m" by simp
    also have "\<dots> = u" by (simp only: tk) simp
    finally show ?thesis .
  qed
  have n1: "ms ! Suc (length m) = a"
  proof -
    have "ms ! Suc (length m) = take (length m + 2) ms ! Suc (length m)" by simp
    also have "\<dots> = a" by (simp only: tk) (simp add: nth_append)
    finally show ?thesis .
  qed
  have all: "ms ! (length m + 2 * i) = \<lparr>role = py ''user'', content = Some (user_input (snd ((e # es) ! i)))\<rparr> \<and>
            role (ms ! (length m + 2 * i + 1)) = py ''assistant'' \<and>
            fst ((e # es) ! i) (facilitator_request sc (simulation_conversation_text
              (take (length m + 2 * i + 1) ms))) =
              Inr (content (ms ! (length m + 2 * i + 1)))" if "i < length (e # es)" for i
  proof (cases i)
    case 0
    then show ?thesis using reply by (simp add: n0 n1 tk1 e u_def a_def)
  next
    case (Suc j)
    with that have "j < length es" by simp
    from ix [OF this] show ?thesis by (simp add: Suc add.commute add.left_commute)
  qed
  show ?case
    unfolding run m_def [symmetric] using len tk0 all by simp
qed

subsection \<open>Scenario and rubric change together\<close>

lemma section_A_pair:
  "(scenario_output (sess (world_after (section_A client w wd))) = scenario_output (sess wd) \<and>
    evaluation_rubric (sess (world_after (section_A client w wd))) = evaluation_rubric (sess wd)) \<or>
   (scenario_output (sess (world_after (section_A client w wd))) \<noteq> None \<and>
    evaluation_rubric (sess (world_after (section_A client w wd))) \<noteq> None)"
  by (simp add: section_A_def call_scenario_designer_def create_def notify_def world_after_def
      Let_def split: sum.splits prod.splits option.splits)

lemma section_B_pair:
  "scenario_output (sess (world_after (section_B client w wd))) = scenario_output (sess wd) \<and>
   evaluation_rubric (sess (world_after (section_B client w wd))) = evaluation_rubric (sess wd)"
  by (simp add: section_B_def submit_move_def finish_simulation_def
      call_simulation_facilitator_def create_def notify_def append_message_def world_after_def
      Let_def split: sum.splits prod.splits option.splits)

lemma section_C_pair:
  "(scenario_output (sess (world_after (section_C client w wd))) = scenario_output (sess wd) \<and>
    evaluation_rubric (sess (world_after (section_C client w wd))) = evaluation_rubric (sess wd)) \<or>
   (scenario_output (sess (world_after (section_C client w wd))) = None \<and>
    evaluation_rubric (sess (world_after (section_C client w wd))) = None)"
  by (simp add: section_C_def evaluate_def restart_everything_def call_evaluator_def create_def
      notify_def world_after_def Let_def split: sum.splits prod.splits)

lemma main_pair:
  "(scenario_output (session_after (main client w s)) = scenario_output s \<and>
    evaluation_rubric (session_after (main client w s)) = evaluation_rubric s) \<or>
   (scenario_output (session_after (main client w s)) \<noteq> None \<and>
    evaluation_rubric (session_after (main client w s)) \<noteq> None) \<or>
   (scenario_output (session_after (main client w s)) = None \<and>
    evaluation_rubric (session_after (main client w s)) = None)"
proof (cases "section_A client w \<lparr>sess = s, calls = [], notices = []\<rparr>")
  case (Inl x)
  then have "session_after (main client w s) =
             sess (world_after (section_A client w \<lparr>sess = s, calls = [], notices = []\<rparr>))"
    by (simp add: main_def session_after_def)
  then show ?thesis
    using section_A_pair [of client w "\<lparr>sess = s, calls = [], notices = []\<rparr>"] by auto
next
  case A: (Inr wd1)
  then have p1: "(scenario_output (sess wd1) = scenario_output s \<and>
                  evaluation_rubric (sess wd1) = evaluation_rubric s) \<or>
                 (scenario_output (sess wd1) \<noteq> None \<and> evaluation_rubric (sess wd1) \<noteq> None)"
    using section_A_pair [of client w "\<lparr>sess = s, calls = [], notices = []\<rparr>"]
    by (simp add: world_after_def)
  show ?thesis
  proof (cases "section_B client w wd1")
    case (Inl x)
    with A have "session_after (main client w s) = sess (world_after (section_B client w wd1))"
      by (simp add: main_def session_after_def)
    then show ?thesis using section_B_pair [of client w wd1] p1 by auto
  next
    case B: (Inr wd2)
    then have p2: "scenario_output (sess wd2) = scenario_output (sess wd1) \<and>
                   evaluation_rubric (sess wd2) = evaluation_rubric (sess wd1)"
      using section_B_pair [of client w wd1] by (simp add: world_after_def)
    from A B have "session_after (main client w s) = sess (world_after (section_C client w wd2))"
      by (simp add: main_def session_after_def)
    then show ?thesis using section_C_pair [of client w wd2] p1 p2 by auto
  qed
qed

subsection \<open>Passes after the evaluation\<close>

lemma evaluated_reruns:
  assumes "scenario_output s \<noteq> None" and "simulation_finished s"
    and "evaluation_feedback s \<noteq> None"
    and "\<forall>e\<in>set es. clicked (snd e) \<noteq> Some Restart_Everything"
  shows "calls_of_passes es s = [] \<and> run_passes es s = s"
  using assms(4)
proof (induction es)
  case Nil
  then show ?case by simp
next
  case (Cons e es)
  obtain client w where e: "e = (client, w)" by (cases e)
  with Cons.prems have "clicked w \<noteq> Some Restart_Everything" by simp
  with assms(1-3) have "main client w s = Inr \<lparr>sess = s, calls = [], notices = []\<rparr>"
    by (rule main_evaluated_rerun)
  with Cons e show ?case by (simp add: session_after_def world_after_def)
qed

lemma main_evaluate_calls:
  assumes "scenario_output s \<noteq> None" and "simulation_finished s"
    and "evaluation_feedback s = None"
  shows "calls (world_after (main client w s)) =
           [evaluator_request (scenario_output s)
              (evaluation_conversation_text (simulation_messages s)) (evaluation_rubric s)]"
proof (cases "client (evaluator_request (scenario_output s)
           (evaluation_conversation_text (simulation_messages s)) (evaluation_rubric s))")
  case (Inl e)
  with assms show ?thesis by (simp add: main_evaluate_fail world_after_def)
next
  case (Inr fb)
  show ?thesis
  proof (cases "clicked w = Some Restart_Everything")
    case True
    with assms(2,3) Inr show ?thesis
      by (simp add: main_restart_evaluating_ok world_after_def)
  next
    case False
    with assms Inr show ?thesis by (simp add: main_evaluate_ok world_after_def)
  qed
qed

section \<open>The claims\<close>

text \<open>
  C1 (as stated, refuted). The claim reads: the scenario is the text before the delimiter
  with a leading \<open>SCENARIO:\<close> label stripped, and the rubric is the text after the
  delimiter. On a response with the label a second time inside the scenario and with two
  delimiters, the code removes both labels and keeps only the text between the two
  delimiters as the rubric, so it differs from the parse the claim describes.
\<close>

theorem parse_text_out_counterexample:
  "parse_text_out
     (py ''SCENARIO: Foo SCENARIO: Baz EVALUATION_RUBRIC: Bar EVALUATION_RUBRIC: Qux'') =
     Inr (py ''Foo  Baz'', py ''Bar'') \<and>
   spec_parse_text_out
     (py ''SCENARIO: Foo SCENARIO: Baz EVALUATION_RUBRIC: Bar EVALUATION_RUBRIC: Qux'') =
     (py ''Foo SCENARIO: Baz'', py ''Bar EVALUATION_RUBRIC: Qux'') \<and>
   parse_text_out
     (py ''SCENARIO: Foo SCENARIO: Baz EVALUATION_RUBRIC: Bar EVALUATION_RUBRIC: Qux'') \<noteq>
     Inr (spec_parse_text_out
       (py ''SCENARIO: Foo SCENARIO: Baz EVALUATION_RUBRIC: Bar EVALUATION_RUBRIC: Qux''))"
proof -
  have c: "parse_text_out
     (py ''SCENARIO: Foo SCENARIO: Baz EVALUATION_RUBRIC: Bar EVALUATION_RUBRIC: Qux'') =
     Inr (py ''Foo  Baz'', py ''Bar'')"
    by (simp add: parse_text_out_def string_eval)
  have s: "spec_parse_text_out
     (py ''SCENARIO: Foo SCENARIO: Baz EVALUATION_RUBRIC: Bar EVALUATION_RUBRIC: Qux'') =
     (py ''Foo SCENARIO: Baz'', py ''Bar EVALUATION_RUBRIC: Qux'')"
    by (simp add: spec_parse_text_out_def strip_leading_label_def string_eval)
  have "py ''Bar'' \<noteq> py ''Bar EVALUATION_RUBRIC: Qux''" by (simp add: py_def)
  with c s show ?thesis by simp
qed

text \<open>
  C1 (amended). For every response text: without the delimiter, the scenario is the whole
  trimmed response and the rubric is the sentinel \<open>No rubric found.\<close>; with the delimiter,
  the response has a leftmost delimiter, the scenario is the text before that leftmost
  delimiter with every occurrence of \<open>SCENARIO:\<close> removed (one pass, left to right) and
  then trimmed, and the rubric is the trimmed text between the leftmost delimiter and the
  next delimiter, or the end of the response when there is no next one. The label removal
  leaves a text without the label unchanged and otherwise removes the leftmost label and
  goes on after it. The response \<open>SCENARIO: Foo\<newline>EVALUATION_RUBRIC:\<newline>Bar\<close> yields
  \<open>(Foo, Bar)\<close>.
\<close>

theorem parse_text_out_cases:
  "(\<not> sublist EVALUATION_RUBRIC_literal t \<longrightarrow>
      parse_text_out t = Inr (strip t, No_rubric_found)) \<and>
   (sublist EVALUATION_RUBRIC_literal t' \<longrightarrow>
      (\<exists>pre rest. t' = pre @ EVALUATION_RUBRIC_literal @ rest \<and>
         \<not> sublist EVALUATION_RUBRIC_literal (pre @ butlast EVALUATION_RUBRIC_literal))) \<and>
   (\<not> sublist EVALUATION_RUBRIC_literal (pre1 @ butlast EVALUATION_RUBRIC_literal) \<and>
    \<not> sublist EVALUATION_RUBRIC_literal rest1 \<longrightarrow>
      parse_text_out (pre1 @ EVALUATION_RUBRIC_literal @ rest1) =
        Inr (strip (replace_py SCENARIO_literal [] pre1), strip rest1)) \<and>
   (\<not> sublist EVALUATION_RUBRIC_literal (pre2 @ butlast EVALUATION_RUBRIC_literal) \<and>
    \<not> sublist EVALUATION_RUBRIC_literal (mid2 @ butlast EVALUATION_RUBRIC_literal) \<longrightarrow>
      parse_text_out (pre2 @ EVALUATION_RUBRIC_literal @ mid2 @ EVALUATION_RUBRIC_literal @ rest2) =
        Inr (strip (replace_py SCENARIO_literal [] pre2), strip mid2)) \<and>
   (\<not> sublist SCENARIO_literal p \<longrightarrow> replace_py SCENARIO_literal [] p = p) \<and>
   (\<not> sublist SCENARIO_literal (a @ butlast SCENARIO_literal) \<longrightarrow>
      replace_py SCENARIO_literal [] (a @ SCENARIO_literal @ b) =
        a @ replace_py SCENARIO_literal [] b) \<and>
   parse_text_out (py ''SCENARIO: Foo\<newline>EVALUATION_RUBRIC:\<newline>Bar'') =
     Inr (py ''Foo'', py ''Bar'')"
proof -
  have ex: "parse_text_out (py ''SCENARIO: Foo\<newline>EVALUATION_RUBRIC:\<newline>Bar'') =
     Inr (py ''Foo'', py ''Bar'')"
    by (simp add: parse_text_out_def string_eval)
  have r1: "\<not> sublist SCENARIO_literal p \<longrightarrow> replace_py SCENARIO_literal [] p = p"
    by (simp add: replace_py_None SCENARIO_literal_nonempty)
  have r2: "\<not> sublist SCENARIO_literal (a @ butlast SCENARIO_literal) \<longrightarrow>
      replace_py SCENARIO_literal [] (a @ SCENARIO_literal @ b) =
        a @ replace_py SCENARIO_literal [] b"
    using replace_py_first [of SCENARIO_literal a "[]" b] SCENARIO_literal_nonempty by simp
  have fo: "sublist EVALUATION_RUBRIC_literal t' \<longrightarrow>
      (\<exists>pre rest. t' = pre @ EVALUATION_RUBRIC_literal @ rest \<and>
         \<not> sublist EVALUATION_RUBRIC_literal (pre @ butlast EVALUATION_RUBRIC_literal))"
    using first_occurrence_exists [OF EVALUATION_RUBRIC_literal_nonempty] by blast
  from ex r1 r2 fo show ?thesis
    using parse_text_out_absent parse_text_out_once parse_text_out_twice by blast
qed

theorem parse_text_out_cases_witness:
  "\<not> sublist EVALUATION_RUBRIC_literal (py ''Just a scenario.'') \<and>
   parse_text_out (py ''Just a scenario.'') = Inr (py ''Just a scenario.'', py ''No rubric found.'') \<and>
   sublist EVALUATION_RUBRIC_literal (py ''xEVALUATION_RUBRIC:y'') \<and>
   \<not> sublist EVALUATION_RUBRIC_literal (py '' SCENARIO: A b.  '' @ butlast EVALUATION_RUBRIC_literal) \<and>
   \<not> sublist EVALUATION_RUBRIC_literal (py '' 1. c  '') \<and>
   parse_text_out (py '' SCENARIO: A b.  '' @ EVALUATION_RUBRIC_literal @ py '' 1. c  '') =
     Inr (py ''A b.'', py ''1. c'') \<and>
   \<not> sublist EVALUATION_RUBRIC_literal (py ''A SCENARIO: b '' @ butlast EVALUATION_RUBRIC_literal) \<and>
   \<not> sublist EVALUATION_RUBRIC_literal (py '' c '' @ butlast EVALUATION_RUBRIC_literal) \<and>
   parse_text_out (py ''A SCENARIO: b '' @ EVALUATION_RUBRIC_literal @ py '' c '' @
       EVALUATION_RUBRIC_literal @ py ''d'') = Inr (py ''A  b'', py ''c'') \<and>
   \<not> sublist SCENARIO_literal (py ''Foo'') \<and> replace_py SCENARIO_literal [] (py ''Foo'') = py ''Foo'' \<and>
   \<not> sublist SCENARIO_literal (py ''A '' @ butlast SCENARIO_literal) \<and>
   replace_py SCENARIO_literal [] (py ''A '' @ SCENARIO_literal @ py '' b'') = py ''A  b''"
proof -
  have h: "\<not> sublist EVALUATION_RUBRIC_literal (py ''Just a scenario.'')"
    "sublist EVALUATION_RUBRIC_literal (py ''xEVALUATION_RUBRIC:y'')"
    "\<not> sublist EVALUATION_RUBRIC_literal (py '' SCENARIO: A b.  '' @ butlast EVALUATION_RUBRIC_literal)"
    "\<not> sublist EVALUATION_RUBRIC_literal (py '' 1. c  '')"
    "\<not> sublist EVALUATION_RUBRIC_literal (py ''A SCENARIO: b '' @ butlast EVALUATION_RUBRIC_literal)"
    "\<not> sublist EVALUATION_RUBRIC_literal (py '' c '' @ butlast EVALUATION_RUBRIC_literal)"
    "\<not> sublist SCENARIO_literal (py ''Foo'')"
    "\<not> sublist SCENARIO_literal (py ''A '' @ butlast SCENARIO_literal)"
    by (simp_all add: string_eval)
  have v: "strip (py ''Just a scenario.'') = py ''Just a scenario.''"
    "strip (replace_py SCENARIO_literal [] (py '' SCENARIO: A b.  '')) = py ''A b.''"
    "strip (py '' 1. c  '') = py ''1. c''"
    "strip (replace_py SCENARIO_literal [] (py ''A SCENARIO: b '')) = py ''A  b''"
    "strip (py '' c '') = py ''c''"
    "replace_py SCENARIO_literal [] (py '' b'') = py '' b''"
    by (simp_all add: string_eval)
  show ?thesis
    using h v
      parse_text_out_cases [of "py ''Just a scenario.''" "py ''xEVALUATION_RUBRIC:y''"
        "py '' SCENARIO: A b.  ''" "py '' 1. c  ''" "py ''A SCENARIO: b ''" "py '' c ''" "py ''d''"
        "py ''Foo''" "py ''A ''" "py '' b''"]
    by (simp add: No_rubric_found_def py_def)
qed

text \<open>
  C2 (as stated, refuted). The claim reads: after an event whose client call fails, the
  session is exactly as before, in particular without a lone user turn. A Submit Move
  whose facilitator call raises leaves the user's message in the conversation: it is
  appended before the call, and nothing takes it back.
\<close>

theorem failed_submit_counterexample:
  "raised (main failing (click (Some Submit_Move) (py ''I open with an anchor offer.''))
      simulating_session) = Some (APIError (py ''timeout'')) \<and>
   simulation_messages simulating_session = [] \<and>
   simulation_messages (session_after
     (main failing (click (Some Submit_Move) (py ''I open with an anchor offer.''))
        simulating_session)) =
     [\<lparr>role = py ''user'', content = Some (py ''I open with an anchor offer.'')\<rparr>] \<and>
   session_after (main failing (click (Some Submit_Move) (py ''I open with an anchor offer.''))
      simulating_session) \<noteq> simulating_session"
proof -
  have "session_after (main failing (click (Some Submit_Move) (py ''I open with an anchor offer.''))
      simulating_session) =
        simulating_session\<lparr>simulation_messages :=
          [\<lparr>role = py ''user'', content = Some (py ''I open with an anchor offer.'')\<rparr>]\<rparr>"
    and "raised (main failing (click (Some Submit_Move) (py ''I open with an anchor offer.''))
      simulating_session) = Some (APIError (py ''timeout''))"
    by (simp_all add: example_defs pass_defs after_defs py_def strip_def is_space_def)
  then show ?thesis by (simp add: simulating_session_def)
qed

text \<open>
  C2 (amended). When the client call of an event fails, the pass ends there with the
  exception, the session keeps the writes the pass made before the call and gets none of
  those after it. A failed designer call leaves the session unchanged, so the scenario
  stays null (and the rubric with it); a failed facilitator call leaves the session
  unchanged except that the user's message is appended to the conversation; a failed
  evaluator call in a finished session leaves the session unchanged; and a click on
  Finish whose evaluator call fails leaves only \<open>simulation_finished\<close> set.
\<close>

theorem failed_call_effects:
  "(scenario_output s = None \<and> clicked w = Some Generate_Scenario \<and>
    client (designer_request (user_tactics w) (user_scenario w) (user_role w)
       (user_make_up w) (user_difficulty w)) = Inl e \<longrightarrow>
      raised (main client w s) = Some e \<and> session_after (main client w s) = s \<and>
      scenario_output (session_after (main client w s)) = None) \<and>
   (scenario_output s1 = Some sc1 \<and> \<not> simulation_finished s1 \<and>
    clicked w1 = Some Submit_Move \<and> strip (user_input w1) \<noteq> [] \<and>
    client1 (facilitator_request sc1 (simulation_conversation_text
       (simulation_messages s1 @ [\<lparr>role = py ''user'', content = Some (user_input w1)\<rparr>]))) = Inl e1 \<longrightarrow>
      raised (main client1 w1 s1) = Some e1 \<and>
      session_after (main client1 w1 s1) =
        s1\<lparr>simulation_messages :=
             simulation_messages s1 @ [\<lparr>role = py ''user'', content = Some (user_input w1)\<rparr>]\<rparr>) \<and>
   (scenario_output s2 \<noteq> None \<and> simulation_finished s2 \<and> evaluation_feedback s2 = None \<and>
    client2 (evaluator_request (scenario_output s2)
       (evaluation_conversation_text (simulation_messages s2)) (evaluation_rubric s2)) = Inl e2 \<longrightarrow>
      raised (main client2 w2 s2) = Some e2 \<and> session_after (main client2 w2 s2) = s2) \<and>
   (scenario_output s3 = Some sc3 \<and> \<not> simulation_finished s3 \<and> evaluation_feedback s3 = None \<and>
    clicked w3 = Some Finish_Evaluate \<and>
    client3 (evaluator_request (scenario_output s3)
       (evaluation_conversation_text (simulation_messages s3)) (evaluation_rubric s3)) = Inl e3 \<longrightarrow>
      raised (main client3 w3 s3) = Some e3 \<and>
      session_after (main client3 w3 s3) = s3\<lparr>simulation_finished := True\<rparr>)"
proof -
  have d: "scenario_output s3 = Some sc3 \<and> \<not> simulation_finished s3 \<and> evaluation_feedback s3 = None \<and>
    clicked w3 = Some Finish_Evaluate \<and>
    client3 (evaluator_request (scenario_output s3)
       (evaluation_conversation_text (simulation_messages s3)) (evaluation_rubric s3)) = Inl e3 \<longrightarrow>
      raised (main client3 w3 s3) = Some e3 \<and>
      session_after (main client3 w3 s3) = s3\<lparr>simulation_finished := True\<rparr>"
  proof (intro impI, elim conjE)
    assume "scenario_output s3 = Some sc3" and "\<not> simulation_finished s3"
      and "evaluation_feedback s3 = None" and "clicked w3 = Some Finish_Evaluate"
      and "client3 (evaluator_request (scenario_output s3)
       (evaluation_conversation_text (simulation_messages s3)) (evaluation_rubric s3)) = Inl e3"
    then have "main client3 w3 s3 =
         Inl (e3, \<lparr>sess = s3\<lparr>simulation_finished := True\<rparr>,
              calls = [evaluator_request (scenario_output s3)
                 (evaluation_conversation_text (simulation_messages s3)) (evaluation_rubric s3)],
              notices = [Success (py ''You'' @ [39] @
                           py ''ve chosen to finish. Scroll to Step 3 for evaluation.''),
                         Info (py ''Evaluating your entire conversation... please wait.'')]\<rparr>)"
      by (rule main_finish_fail)
    then show "raised (main client3 w3 s3) = Some e3 \<and>
      session_after (main client3 w3 s3) = s3\<lparr>simulation_finished := True\<rparr>"
      by (simp add: after_defs)
  qed
  show ?thesis
    using d by (simp add: main_generate_fail main_submit_fail main_evaluate_fail after_defs)
qed

theorem failed_call_effects_witness:
  "session_after (main failing (click (Some Generate_Scenario) []) initial_session) =
     initial_session \<and>
   scenario_output (session_after (main failing (click (Some Generate_Scenario) [])
     initial_session)) = None \<and>
   evaluation_rubric (session_after (main failing (click (Some Generate_Scenario) [])
     initial_session)) = None \<and>
   session_after (main failing (click (Some Submit_Move) (py ''hi'')) simulating_session) =
     simulating_session\<lparr>simulation_messages := [\<lparr>role = py ''user'', content = Some (py ''hi'')\<rparr>]\<rparr> \<and>
   session_after (main failing (click None [])
     (simulating_session\<lparr>simulation_finished := True\<rparr>)) =
     simulating_session\<lparr>simulation_finished := True\<rparr> \<and>
   session_after (main failing (click (Some Finish_Evaluate) []) simulating_session) =
     simulating_session\<lparr>simulation_finished := True\<rparr>"
proof -
  have "strip (py ''hi'') \<noteq> []" by (simp add: py_def strip_def is_space_def)
  then show ?thesis
    using failed_call_effects [of initial_session "click (Some Generate_Scenario) []" failing
        "APIError (py ''timeout'')"
        simulating_session "py ''A negotiation.''" "click (Some Submit_Move) (py ''hi'')" failing
        "APIError (py ''timeout'')"
        "simulating_session\<lparr>simulation_finished := True\<rparr>" failing "APIError (py ''timeout'')"
        "click None []"
        simulating_session "py ''A negotiation.''" "click (Some Finish_Evaluate) []" failing
        "APIError (py ''timeout'')"]
    by (simp add: example_defs)
qed

text \<open>
  C3. After any list of accepted moves from a session with a scenario and not finished,
  the conversation is the one before followed by two messages per move, so \<open>2N\<close> messages
  after \<open>N\<close> moves from the empty conversation: for the \<open>i\<close>-th move, the user's message
  with the move, then an assistant message whose content is the reply of that pass's
  client to the request built from the conversation up to and including that user message.
  The messages already there stay in place. And no pass other than a restart removes or
  reorders messages: the conversation before is a prefix of the conversation after.
\<close>

theorem transcript_append_only:
  assumes "scenario_output s = Some sc" and "\<not> simulation_finished s" and "accepted_moves es s"
  shows "length (simulation_messages (run_passes es s)) =
           length (simulation_messages s) + 2 * length es \<and>
         take (length (simulation_messages s)) (simulation_messages (run_passes es s)) =
           simulation_messages s \<and>
         (\<forall>i<length es.
            simulation_messages (run_passes es s) ! (length (simulation_messages s) + 2 * i) =
              \<lparr>role = py ''user'', content = Some (user_input (snd (es ! i)))\<rparr> \<and>
            role (simulation_messages (run_passes es s) ! (length (simulation_messages s) + 2 * i + 1)) =
              py ''assistant'' \<and>
            fst (es ! i) (facilitator_request sc (simulation_conversation_text
              (take (length (simulation_messages s) + 2 * i + 1)
                 (simulation_messages (run_passes es s))))) =
              Inr (content (simulation_messages (run_passes es s) !
                     (length (simulation_messages s) + 2 * i + 1)))) \<and>
         (clicked w' \<noteq> Some Restart_Everything \<longrightarrow>
            prefix (simulation_messages s')
              (simulation_messages (session_after (main client' w' s'))))"
  using accepted_moves_transcript [OF assms] main_transcript_prefix [of w' s' client']
  by blast

theorem transcript_append_only_witness:
  "accepted_moves
     [(replying (py ''What will you do next?''), click (Some Submit_Move) (py ''I open with an anchor offer.'')),
      (replying (py ''And then?''), click (Some Submit_Move) (py ''I wait.''))] simulating_session \<and>
   simulation_messages (run_passes
     [(replying (py ''What will you do next?''), click (Some Submit_Move) (py ''I open with an anchor offer.'')),
      (replying (py ''And then?''), click (Some Submit_Move) (py ''I wait.''))] simulating_session) =
     [\<lparr>role = py ''user'', content = Some (py ''I open with an anchor offer.'')\<rparr>,
      \<lparr>role = py ''assistant'', content = Some (py ''What will you do next?'')\<rparr>,
      \<lparr>role = py ''user'', content = Some (py ''I wait.'')\<rparr>,
      \<lparr>role = py ''assistant'', content = Some (py ''And then?'')\<rparr>] \<and>
   length (simulation_messages (run_passes
     [(replying (py ''What will you do next?''), click (Some Submit_Move) (py ''I open with an anchor offer.'')),
      (replying (py ''And then?''), click (Some Submit_Move) (py ''I wait.''))] simulating_session)) =
     2 * 2 \<and>
   prefix (simulation_messages simulating_session)
     (simulation_messages (session_after
        (main failing (click (Some Finish_Evaluate) []) simulating_session)))"
proof -
  have acc: "accepted_moves
     [(replying (py ''What will you do next?''), click (Some Submit_Move) (py ''I open with an anchor offer.'')),
      (replying (py ''And then?''), click (Some Submit_Move) (py ''I wait.''))] simulating_session"
    by (simp add: example_defs pass_defs after_defs py_def strip_def is_space_def)
  have run: "simulation_messages (run_passes
     [(replying (py ''What will you do next?''), click (Some Submit_Move) (py ''I open with an anchor offer.'')),
      (replying (py ''And then?''), click (Some Submit_Move) (py ''I wait.''))] simulating_session) =
     [\<lparr>role = py ''user'', content = Some (py ''I open with an anchor offer.'')\<rparr>,
      \<lparr>role = py ''assistant'', content = Some (py ''What will you do next?'')\<rparr>,
      \<lparr>role = py ''user'', content = Some (py ''I wait.'')\<rparr>,
      \<lparr>role = py ''assistant'', content = Some (py ''And then?'')\<rparr>]"
    by (simp add: example_defs pass_defs after_defs py_def strip_def is_space_def)
  show ?thesis
    using acc run
      transcript_append_only [of simulating_session "py ''A negotiation.''"
        "[(replying (py ''What will you do next?''), click (Some Submit_Move) (py ''I open with an anchor offer.'')),
          (replying (py ''And then?''), click (Some Submit_Move) (py ''I wait.''))]"
        "click (Some Finish_Evaluate) []" simulating_session failing]
    by (simp add: simulating_session_def click_def)
qed

text \<open>
  C4. In a session with a scenario and not finished, a click on Submit Move with an empty
  or whitespace-only move is rejected: the pass only shows the warning
  \<open>Please enter a move.\<close>, the session (conversation and every other key) is as before,
  and no request is sent to the client.
\<close>

theorem blank_move_rejected:
  assumes "scenario_output s \<noteq> None" and "\<not> simulation_finished s"
    and "clicked w = Some Submit_Move" and "\<forall>c\<in>set (user_input w). is_space c"
  shows "main client w s =
         Inr \<lparr>sess = s, calls = [], notices = [Warning (py ''Please enter a move.'')]\<rparr>"
proof -
  from assms(1) obtain sc where sc: "scenario_output s = Some sc" by auto
  from assms(4) have "strip (user_input w) = []" by (simp add: strip_empty_iff)
  with sc assms(2,3) show ?thesis by (simp add: main_submit_blank)
qed

theorem blank_move_rejected_witness:
  "main failing (click (Some Submit_Move) []) simulating_session =
     Inr \<lparr>sess = simulating_session, calls = [],
          notices = [Warning (py ''Please enter a move.'')]\<rparr> \<and>
   strip (py ''   '') = [] \<and>
   main failing (click (Some Submit_Move) (py ''   '')) simulating_session =
     Inr \<lparr>sess = simulating_session, calls = [],
          notices = [Warning (py ''Please enter a move.'')]\<rparr>"
  using blank_move_rejected [of simulating_session "click (Some Submit_Move) []" failing]
    blank_move_rejected [of simulating_session "click (Some Submit_Move) (py ''   '')" failing]
  by (simp add: simulating_session_def click_def py_def is_space_def strip_def)

text \<open>
  C5 (as stated, refuted). The claim reads: any number of evaluation triggers in the
  finished state give exactly one request to the client. The guard of the evaluation step
  tests whether the feedback is \<open>None\<close>, and the feedback is \<open>None\<close> until a call has
  returned a text: after a first trigger whose call raises, and after a first trigger
  whose reply has no text (a pass that ends normally), the second trigger sends the
  request again, two requests in all.
\<close>

theorem evaluation_twice_counterexample:
  "calls_of_passes
     [(failing, click None []), (replying (py ''Feedback: strong anchoring.''), click None [])]
     (simulating_session\<lparr>simulation_finished := True\<rparr>) =
     [evaluator_request (Some (py ''A negotiation.'')) [] (Some (py ''Score clarity 1-5.'')),
      evaluator_request (Some (py ''A negotiation.'')) [] (Some (py ''Score clarity 1-5.''))] \<and>
   raised (main silent (click None []) (simulating_session\<lparr>simulation_finished := True\<rparr>)) =
     None \<and>
   calls_of_passes
     [(silent, click None []), (replying (py ''Feedback: strong anchoring.''), click None [])]
     (simulating_session\<lparr>simulation_finished := True\<rparr>) =
     [evaluator_request (Some (py ''A negotiation.'')) [] (Some (py ''Score clarity 1-5.'')),
      evaluator_request (Some (py ''A negotiation.'')) [] (Some (py ''Score clarity 1-5.''))]"
  by (simp add: example_defs pass_defs after_defs evaluation_conversation_text_def)

text \<open>
  C5 (amended). In the finished state, every pass entered while the feedback is null
  sends exactly one request, the evaluator's. If that call returns a text, the text is
  written as the feedback, and from then on passes send no request and leave the feedback
  unchanged: a trigger whose call returns a text followed by any number of further
  triggers (none of them a restart) gives exactly one request and one write. If the call
  raises, or returns a reply without text, the feedback stays null and the session is as
  before, so that the next trigger sends the request again.
\<close>

theorem evaluation_until_feedback:
  "(simulation_finished s \<and> scenario_output s \<noteq> None \<and> evaluation_feedback s = None \<and>
    clicked w \<noteq> Some Restart_Everything \<and>
    client (evaluator_request (scenario_output s)
       (evaluation_conversation_text (simulation_messages s)) (evaluation_rubric s)) =
      Inr (Some fb) \<and>
    (\<forall>e\<in>set es. clicked (snd e) \<noteq> Some Restart_Everything) \<longrightarrow>
      calls_of_passes ((client, w) # es) s =
        [evaluator_request (scenario_output s)
           (evaluation_conversation_text (simulation_messages s)) (evaluation_rubric s)] \<and>
      run_passes ((client, w) # es) s = s\<lparr>evaluation_feedback := Some fb\<rparr>) \<and>
   (simulation_finished s' \<and> scenario_output s' \<noteq> None \<and> evaluation_feedback s' \<noteq> None \<and>
    (\<forall>e\<in>set es'. clicked (snd e) \<noteq> Some Restart_Everything) \<longrightarrow>
      calls_of_passes es' s' = [] \<and> run_passes es' s' = s') \<and>
   (simulation_finished s1 \<and> scenario_output s1 \<noteq> None \<and> evaluation_feedback s1 = None \<longrightarrow>
      calls (world_after (main client1 w1 s1)) =
        [evaluator_request (scenario_output s1)
           (evaluation_conversation_text (simulation_messages s1)) (evaluation_rubric s1)]) \<and>
   (simulation_finished s2 \<and> scenario_output s2 \<noteq> None \<and> evaluation_feedback s2 = None \<and>
    client2 (evaluator_request (scenario_output s2)
       (evaluation_conversation_text (simulation_messages s2)) (evaluation_rubric s2)) = Inl e \<longrightarrow>
      raised (main client2 w2 s2) = Some e \<and> session_after (main client2 w2 s2) = s2) \<and>
   (simulation_finished s3 \<and> scenario_output s3 \<noteq> None \<and> evaluation_feedback s3 = None \<and>
    clicked w3 \<noteq> Some Restart_Everything \<and>
    client3 (evaluator_request (scenario_output s3)
       (evaluation_conversation_text (simulation_messages s3)) (evaluation_rubric s3)) =
      Inr None \<longrightarrow>
      raised (main client3 w3 s3) = None \<and> session_after (main client3 w3 s3) = s3)"
proof -
  have first: "simulation_finished s \<and> scenario_output s \<noteq> None \<and> evaluation_feedback s = None \<and>
    clicked w \<noteq> Some Restart_Everything \<and>
    client (evaluator_request (scenario_output s)
       (evaluation_conversation_text (simulation_messages s)) (evaluation_rubric s)) =
      Inr (Some fb) \<and>
    (\<forall>e\<in>set es. clicked (snd e) \<noteq> Some Restart_Everything) \<longrightarrow>
      calls_of_passes ((client, w) # es) s =
        [evaluator_request (scenario_output s)
           (evaluation_conversation_text (simulation_messages s)) (evaluation_rubric s)] \<and>
      run_passes ((client, w) # es) s = s\<lparr>evaluation_feedback := Some fb\<rparr>"
  proof (intro impI, elim conjE)
    assume a: "simulation_finished s" "scenario_output s \<noteq> None" "evaluation_feedback s = None"
      "clicked w \<noteq> Some Restart_Everything"
      "client (evaluator_request (scenario_output s)
         (evaluation_conversation_text (simulation_messages s)) (evaluation_rubric s)) =
        Inr (Some fb)"
      "\<forall>e\<in>set es. clicked (snd e) \<noteq> Some Restart_Everything"
    have m: "main client w s =
         Inr \<lparr>sess = s\<lparr>evaluation_feedback := Some fb\<rparr>,
              calls = [evaluator_request (scenario_output s)
                 (evaluation_conversation_text (simulation_messages s)) (evaluation_rubric s)],
              notices = [Info (py ''Evaluating your entire conversation... please wait.''),
                         Success (py ''Evaluation complete! See below for detailed feedback.'')]\<rparr>"
      using a(2,1,3,4,5) by (rule main_evaluate_ok)
    have "calls_of_passes es (s\<lparr>evaluation_feedback := Some fb\<rparr>) = [] \<and>
          run_passes es (s\<lparr>evaluation_feedback := Some fb\<rparr>) = s\<lparr>evaluation_feedback := Some fb\<rparr>"
      using a(1,2,6) by (intro evaluated_reruns) simp_all
    with m show "calls_of_passes ((client, w) # es) s =
        [evaluator_request (scenario_output s)
           (evaluation_conversation_text (simulation_messages s)) (evaluation_rubric s)] \<and>
      run_passes ((client, w) # es) s = s\<lparr>evaluation_feedback := Some fb\<rparr>"
      by (simp add: session_after_def world_after_def)
  qed
  have again: "simulation_finished s' \<and> scenario_output s' \<noteq> None \<and> evaluation_feedback s' \<noteq> None \<and>
          (\<forall>e\<in>set es'. clicked (snd e) \<noteq> Some Restart_Everything) \<longrightarrow>
            calls_of_passes es' s' = [] \<and> run_passes es' s' = s'"
    using evaluated_reruns [of s' es'] by blast
  have sent: "simulation_finished s1 \<and> scenario_output s1 \<noteq> None \<and> evaluation_feedback s1 = None \<longrightarrow>
      calls (world_after (main client1 w1 s1)) =
        [evaluator_request (scenario_output s1)
           (evaluation_conversation_text (simulation_messages s1)) (evaluation_rubric s1)]"
    using main_evaluate_calls [of s1 client1 w1] by blast
  have fails: "simulation_finished s2 \<and> scenario_output s2 \<noteq> None \<and> evaluation_feedback s2 = None \<and>
    client2 (evaluator_request (scenario_output s2)
       (evaluation_conversation_text (simulation_messages s2)) (evaluation_rubric s2)) = Inl e \<longrightarrow>
      raised (main client2 w2 s2) = Some e \<and> session_after (main client2 w2 s2) = s2"
    by (simp add: main_evaluate_fail after_defs)
  have notext: "simulation_finished s3 \<and> scenario_output s3 \<noteq> None \<and> evaluation_feedback s3 = None \<and>
    clicked w3 \<noteq> Some Restart_Everything \<and>
    client3 (evaluator_request (scenario_output s3)
       (evaluation_conversation_text (simulation_messages s3)) (evaluation_rubric s3)) =
      Inr None \<longrightarrow>
      raised (main client3 w3 s3) = None \<and> session_after (main client3 w3 s3) = s3"
  proof (intro impI, elim conjE)
    assume a: "simulation_finished s3" "scenario_output s3 \<noteq> None" "evaluation_feedback s3 = None"
      "clicked w3 \<noteq> Some Restart_Everything"
      "client3 (evaluator_request (scenario_output s3)
         (evaluation_conversation_text (simulation_messages s3)) (evaluation_rubric s3)) =
        Inr None"
    have "main client3 w3 s3 =
         Inr \<lparr>sess = s3\<lparr>evaluation_feedback := None\<rparr>,
              calls = [evaluator_request (scenario_output s3)
                 (evaluation_conversation_text (simulation_messages s3)) (evaluation_rubric s3)],
              notices = [Info (py ''Evaluating your entire conversation... please wait.''),
                         Success (py ''Evaluation complete! See below for detailed feedback.'')]\<rparr>"
      using a(2,1,3,4,5) by (rule main_evaluate_ok)
    with a(3) show "raised (main client3 w3 s3) = None \<and> session_after (main client3 w3 s3) = s3"
      by (simp add: after_defs)
  qed
  from first again sent fails notext show ?thesis by blast
qed

theorem evaluation_until_feedback_witness:
  "calls_of_passes
     [(replying (py ''Feedback: strong anchoring.''), click None []),
      (failing, click None []), (replying (py ''other''), click (Some Submit_Move) (py ''again''))]
     (simulating_session\<lparr>simulation_finished := True\<rparr>) =
     [evaluator_request (Some (py ''A negotiation.'')) [] (Some (py ''Score clarity 1-5.''))] \<and>
   run_passes
     [(replying (py ''Feedback: strong anchoring.''), click None []),
      (failing, click None []), (replying (py ''other''), click (Some Submit_Move) (py ''again''))]
     (simulating_session\<lparr>simulation_finished := True\<rparr>) =
     simulating_session\<lparr>simulation_finished := True,
                        evaluation_feedback := Some (py ''Feedback: strong anchoring.'')\<rparr> \<and>
   calls_of_passes [(failing, click None []), (silent, click None [])]
     (simulating_session\<lparr>simulation_finished := True,
        evaluation_feedback := Some (py ''Feedback: strong anchoring.'')\<rparr>) = [] \<and>
   calls (world_after (main failing (click (Some Restart_Everything) [])
     (simulating_session\<lparr>simulation_finished := True\<rparr>))) =
     [evaluator_request (Some (py ''A negotiation.'')) [] (Some (py ''Score clarity 1-5.''))] \<and>
   session_after (main failing (click None [])
     (simulating_session\<lparr>simulation_finished := True\<rparr>)) =
     simulating_session\<lparr>simulation_finished := True\<rparr> \<and>
   raised (main silent (click None []) (simulating_session\<lparr>simulation_finished := True\<rparr>)) =
     None \<and>
   session_after (main silent (click None [])
     (simulating_session\<lparr>simulation_finished := True\<rparr>)) =
     simulating_session\<lparr>simulation_finished := True\<rparr>"
  using evaluation_until_feedback [of "simulating_session\<lparr>simulation_finished := True\<rparr>"
      "click None []" "replying (py ''Feedback: strong anchoring.'')" "py ''Feedback: strong anchoring.''"
      "[(failing, click None []), (replying (py ''other''), click (Some Submit_Move) (py ''again''))]"
      "simulating_session\<lparr>simulation_finished := True,
        evaluation_feedback := Some (py ''Feedback: strong anchoring.'')\<rparr>"
      "[(failing, click None []), (silent, click None [])]"
      "simulating_session\<lparr>simulation_finished := True\<rparr>" failing
      "click (Some Restart_Everything) []"
      "simulating_session\<lparr>simulation_finished := True\<rparr>" failing "APIError (py ''timeout'')"
      "click None []"
      "simulating_session\<lparr>simulation_finished := True\<rparr>" "click None []" silent]
  by (simp add: example_defs evaluation_conversation_text_def)

text \<open>
  C6 (as stated, refuted). The claim reads: the reset is available from every state and
  restores the initial values. The Restart Everything button is inside the branch of the
  finished simulation; in a session with a scenario and not finished, a pass with that
  click changes nothing.
\<close>

theorem restart_counterexample:
  "main (replying (py ''ok'')) (click (Some Restart_Everything) []) simulating_session =
     Inr \<lparr>sess = simulating_session, calls = [], notices = []\<rparr> \<and>
   session_after (main (replying (py ''ok'')) (click (Some Restart_Everything) [])
     simulating_session) \<noteq> initial_session \<and>
   scenario_output (session_after (main (replying (py ''ok''))
     (click (Some Restart_Everything) []) simulating_session)) = Some (py ''A negotiation.'')"
  by (simp add: example_defs pass_defs after_defs)

text \<open>
  C6 (amended). The reset is available in the finished states only. In a finished session
  with feedback, a click on Restart Everything restores every key to its initial value
  (scenario and rubric null, conversation empty, feedback null, not finished) and sends no
  request. In a finished session without feedback the evaluation of the same pass runs
  first: when its call succeeds the session is then reset, when it fails the pass ends
  with the session unchanged. In a session that is not finished, the click changes
  nothing.
\<close>

theorem restart_only_when_finished:
  "(simulation_finished s \<and> evaluation_feedback s \<noteq> None \<and>
    clicked w = Some Restart_Everything \<longrightarrow>
      main client w s =
        Inr \<lparr>sess = initial_session, calls = [],
             notices = [Success (py ''All cleared. Scroll up to Step 1 to begin again.'')]\<rparr>) \<and>
   (simulation_finished s1 \<and> evaluation_feedback s1 = None \<and>
    clicked w1 = Some Restart_Everything \<and>
    client1 (evaluator_request (scenario_output s1)
       (evaluation_conversation_text (simulation_messages s1)) (evaluation_rubric s1)) = Inr fb \<longrightarrow>
      session_after (main client1 w1 s1) = initial_session \<and>
      calls (world_after (main client1 w1 s1)) =
        [evaluator_request (scenario_output s1)
           (evaluation_conversation_text (simulation_messages s1)) (evaluation_rubric s1)]) \<and>
   (simulation_finished s2 \<and> evaluation_feedback s2 = None \<and>
    clicked w2 = Some Restart_Everything \<and>
    client2 (evaluator_request (scenario_output s2)
       (evaluation_conversation_text (simulation_messages s2)) (evaluation_rubric s2)) = Inl e \<longrightarrow>
      session_after (main client2 w2 s2) = s2 \<and> raised (main client2 w2 s2) = Some e) \<and>
   (\<not> simulation_finished s3 \<and> clicked w3 = Some Restart_Everything \<longrightarrow>
      main client3 w3 s3 = Inr \<lparr>sess = s3, calls = [], notices = []\<rparr>)"
  by (simp add: main_restart_evaluated main_restart_evaluating_ok main_restart_evaluating_fail
      main_restart_not_finished after_defs)

theorem restart_only_when_finished_witness:
  "main failing (click (Some Restart_Everything) [])
     (simulating_session\<lparr>simulation_messages := [\<lparr>role = py ''user'', content = Some (py ''hi'')\<rparr>],
        evaluation_feedback := Some (py ''Feedback''), simulation_finished := True\<rparr>) =
     Inr \<lparr>sess = initial_session, calls = [],
          notices = [Success (py ''All cleared. Scroll up to Step 1 to begin again.'')]\<rparr> \<and>
   session_after (main (replying (py ''Feedback'')) (click (Some Restart_Everything) [])
     (simulating_session\<lparr>simulation_finished := True\<rparr>)) = initial_session \<and>
   session_after (main failing (click (Some Restart_Everything) [])
     (simulating_session\<lparr>simulation_finished := True\<rparr>)) =
     simulating_session\<lparr>simulation_finished := True\<rparr> \<and>
   main failing (click (Some Restart_Everything) []) simulating_session =
     Inr \<lparr>sess = simulating_session, calls = [], notices = []\<rparr> \<and>
   main failing (click (Some Restart_Everything) []) initial_session =
     Inr \<lparr>sess = initial_session, calls = [], notices = []\<rparr>"
  using restart_only_when_finished [of
      "simulating_session\<lparr>simulation_messages := [\<lparr>role = py ''user'', content = Some (py ''hi'')\<rparr>],
        evaluation_feedback := Some (py ''Feedback''), simulation_finished := True\<rparr>"
      "click (Some Restart_Everything) []" failing
      "simulating_session\<lparr>simulation_finished := True\<rparr>"
      "click (Some Restart_Everything) []" "replying (py ''Feedback'')" "Some (py ''Feedback'')"
      "simulating_session\<lparr>simulation_finished := True\<rparr>"
      "click (Some Restart_Everything) []" failing "APIError (py ''timeout'')"
      simulating_session "click (Some Restart_Everything) []" failing]
    restart_only_when_finished [of _ _ _ _ _ _ _ _ _ _ _
      initial_session "click (Some Restart_Everything) []" failing]
  by (simp add: example_defs)

text \<open>
  C7. In every reachable session state the rubric is non-null exactly when the scenario
  is non-null, and every pass from such a state either leaves both as they were, or leaves
  both set, or leaves both null.
\<close>

theorem scenario_rubric_paired:
  assumes "reachable s"
  shows "(evaluation_rubric s \<noteq> None \<longleftrightarrow> scenario_output s \<noteq> None) \<and>
         ((scenario_output (session_after (main client w s)) = scenario_output s \<and>
           evaluation_rubric (session_after (main client w s)) = evaluation_rubric s) \<or>
          (scenario_output (session_after (main client w s)) \<noteq> None \<and>
           evaluation_rubric (session_after (main client w s)) \<noteq> None) \<or>
          (scenario_output (session_after (main client w s)) = None \<and>
           evaluation_rubric (session_after (main client w s)) = None))"
proof -
  from assms have "evaluation_rubric s \<noteq> None \<longleftrightarrow> scenario_output s \<noteq> None"
  proof (induction rule: reachable.induct)
    case start
    show ?case by (simp add: initial_session_def)
  next
    case (pass s client w)
    with main_pair [of client w s] show ?case by auto
  qed
  with main_pair [of client w s] show ?thesis by blast
qed

theorem scenario_rubric_paired_witness:
  "reachable (session_after (main
      (replying (py ''SCENARIO: A negotiation.\<newline>EVALUATION_RUBRIC:\<newline>Score clarity 1-5.''))
      (click (Some Generate_Scenario) []) initial_session)) \<and>
   session_after (main
      (replying (py ''SCENARIO: A negotiation.\<newline>EVALUATION_RUBRIC:\<newline>Score clarity 1-5.''))
      (click (Some Generate_Scenario) []) initial_session) = simulating_session \<and>
   (evaluation_rubric simulating_session \<noteq> None \<longleftrightarrow> scenario_output simulating_session \<noteq> None)"
proof -
  have r: "reachable (session_after (main
      (replying (py ''SCENARIO: A negotiation.\<newline>EVALUATION_RUBRIC:\<newline>Score clarity 1-5.''))
      (click (Some Generate_Scenario) []) initial_session))"
    by (intro reachable.pass reachable.start)
  have v: "session_after (main
      (replying (py ''SCENARIO: A negotiation.\<newline>EVALUATION_RUBRIC:\<newline>Score clarity 1-5.''))
      (click (Some Generate_Scenario) []) initial_session) = simulating_session"
    by (simp add: example_defs pass_defs after_defs parse_text_out_def string_eval)
  from scenario_rubric_paired [OF r, of failing "click None []"] r v show ?thesis by simp
qed

text \<open>
  C8. For every conversation, the text built by the loop of the evaluation step is the
  text built by the loop of the Submit Move handler, and both are the concatenation, in
  order, of one line \<open><ROLE_LABEL>: <content>\<close> with a newline per message, the label
  being \<open>USER\<close> for the role \<open>user\<close> and \<open>FACILITATOR\<close> otherwise.
\<close>

theorem conversation_text_same:
  "evaluation_conversation_text ms = simulation_conversation_text ms \<and>
   simulation_conversation_text ms = spec_conversation_context ms"
  by (simp add: evaluation_conversation_text_def simulation_conversation_text_def
      spec_conversation_context_def foldl_append_concat)

text \<open>
  C9. For every accepted move (not empty after stripping), the message appended to the
  conversation has the role \<open>user\<close> and the submitted string as its content, unchanged,
  leading and trailing whitespace included, whether the facilitator's call then succeeds
  or fails.
\<close>

theorem user_turn_verbatim:
  assumes "scenario_output s \<noteq> None" and "\<not> simulation_finished s"
    and "clicked w = Some Submit_Move" and "strip (user_input w) \<noteq> []"
  shows "take (Suc (length (simulation_messages s)))
           (simulation_messages (session_after (main client w s))) =
         simulation_messages s @ [\<lparr>role = py ''user'', content = Some (user_input w)\<rparr>]"
proof -
  from assms(1) obtain sc where sc: "scenario_output s = Some sc" by auto
  show ?thesis
  proof (cases "client (facilitator_request sc (simulation_conversation_text
             (simulation_messages s @ [\<lparr>role = py ''user'', content = Some (user_input w)\<rparr>])))")
    case (Inl e)
    with sc assms(2-4) show ?thesis
      by (simp add: main_submit_fail session_after_def world_after_def)
  next
    case (Inr reply)
    with sc assms(2-4) show ?thesis
      by (simp add: main_submit_ok session_after_def world_after_def)
  qed
qed

theorem user_turn_verbatim_witness:
  "strip (py ''  I open with an anchor offer. '') \<noteq> [] \<and>
   take (Suc 0) (simulation_messages (session_after
     (main (replying (py ''What will you do next?''))
        (click (Some Submit_Move) (py ''  I open with an anchor offer. '')) simulating_session))) =
     [\<lparr>role = py ''user'', content = Some (py ''  I open with an anchor offer. '')\<rparr>] \<and>
   take (Suc 0) (simulation_messages (session_after
     (main failing
        (click (Some Submit_Move) (py ''  I open with an anchor offer. '')) simulating_session))) =
     [\<lparr>role = py ''user'', content = Some (py ''  I open with an anchor offer. '')\<rparr>]"
proof -
  have h: "strip (py ''  I open with an anchor offer. '') \<noteq> []"
    by (simp add: py_def strip_def is_space_def)
  then show ?thesis
    using user_turn_verbatim [of simulating_session
        "click (Some Submit_Move) (py ''  I open with an anchor offer. '')"
        "replying (py ''What will you do next?'')"]
      user_turn_verbatim [of simulating_session
        "click (Some Submit_Move) (py ''  I open with an anchor offer. '')" failing]
    by (simp add: simulating_session_def click_def)
qed

text \<open>
  C10. With an empty conversation, a click on Finish and Evaluate is accepted: the
  simulation section sets \<open>simulation_finished\<close> and sends no request, and the evaluation
  that follows in the same pass sends exactly one request, the evaluator's, built with the
  empty string as conversation text.
\<close>

theorem finish_with_empty_transcript:
  assumes "scenario_output s = Some sc" and "\<not> simulation_finished s"
    and "simulation_messages s = []" and "evaluation_feedback s = None"
    and "clicked w = Some Finish_Evaluate"
  shows "section_B client w \<lparr>sess = s, calls = [], notices = []\<rparr> =
           Inr \<lparr>sess = s\<lparr>simulation_finished := True\<rparr>, calls = [],
                notices = [Success (py ''You'' @ [39] @
                             py ''ve chosen to finish. Scroll to Step 3 for evaluation.'')]\<rparr> \<and>
         calls (world_after (main client w s)) =
           [evaluator_request (Some sc) [] (evaluation_rubric s)] \<and>
         simulation_finished (session_after (main client w s)) \<and>
         simulation_messages (session_after (main client w s)) = []"
proof -
  have b: "section_B client w \<lparr>sess = s, calls = [], notices = []\<rparr> =
           Inr \<lparr>sess = s\<lparr>simulation_finished := True\<rparr>, calls = [],
                notices = [Success (py ''You'' @ [39] @
                             py ''ve chosen to finish. Scroll to Step 3 for evaluation.'')]\<rparr>"
    using assms by (simp add: section_B_def finish_simulation_def notify_def)
  have m: "main client w s =
           evaluate client
             \<lparr>sess = s\<lparr>simulation_finished := True\<rparr>, calls = [],
              notices = [Success (py ''You'' @ [39] @
                           py ''ve chosen to finish. Scroll to Step 3 for evaluation.'')]\<rparr>"
    using assms(1,2,5) by (rule main_finish_evaluate)
  have c: "calls (world_after (main client w s)) =
           [evaluator_request (Some sc) [] (evaluation_rubric s)]"
    unfolding m using assms
    by (simp add: evaluate_def call_evaluator_def create_def notify_def world_after_def
        evaluation_conversation_text_def Let_def split: sum.splits)
  have f: "simulation_finished (session_after (main client w s)) \<and>
           simulation_messages (session_after (main client w s)) = []"
    unfolding m using assms
    by (simp add: evaluate_def call_evaluator_def create_def notify_def after_defs
        Let_def split: sum.splits)
  from b c f show ?thesis by simp
qed

theorem finish_with_empty_transcript_witness:
  "calls (world_after (main (replying (py ''Feedback: nothing to assess.''))
      (click (Some Finish_Evaluate) []) simulating_session)) =
     [evaluator_request (Some (py ''A negotiation.'')) [] (Some (py ''Score clarity 1-5.''))] \<and>
   session_after (main (replying (py ''Feedback: nothing to assess.''))
      (click (Some Finish_Evaluate) []) simulating_session) =
     simulating_session\<lparr>simulation_finished := True,
        evaluation_feedback := Some (py ''Feedback: nothing to assess.'')\<rparr>"
proof -
  have "session_after (main (replying (py ''Feedback: nothing to assess.''))
      (click (Some Finish_Evaluate) []) simulating_session) =
     simulating_session\<lparr>simulation_finished := True,
        evaluation_feedback := Some (py ''Feedback: nothing to assess.'')\<rparr>"
    by (simp add: example_defs pass_defs after_defs evaluation_conversation_text_def)
  then show ?thesis
    using finish_with_empty_transcript [of simulating_session "py ''A negotiation.''"
        "click (Some Finish_Evaluate) []" "replying (py ''Feedback: nothing to assess.'')"]
    by (simp add: simulating_session_def click_def)
qed

end
